theory Spec2Isabelle
  imports Complex_Main "HOL-Library.Word" "HOL-Library.Monad_Syntax"
begin

section \<open>Numbers and colours of the settings layer (src/web/utils.ts, src/web/constants.ts)\<close>

text \<open>
  The TypeScript side works on IEEE doubles.  In this development a finite JavaScript
  \<^verbatim>\<open>number\<close> is the real number it denotes: rounding error is not modelled, and an
  operation whose JavaScript result is \<^verbatim>\<open>NaN\<close> or infinite is a partial function
  returning \<open>None\<close>.  An RGB triple \<^verbatim>\<open>[number, number, number]\<close> is a triple of reals.
\<close>

type_synonym rgb = "real \<times> real \<times> real"

definition COLOR_EPSILON :: real where
  "COLOR_EPSILON = 5 / 1000"

definition NUMBER_EPSILON :: real where
  "NUMBER_EPSILON = 1 / 10000"

definition SEED_MAX :: real where
  "SEED_MAX = 1000000"

text \<open>\<^verbatim>\<open>Math.round\<close>: the nearest integer, a tie going up.\<close>

definition Math_round :: "real \<Rightarrow> int" where
  "Math_round x = \<lfloor>x + 1 / 2\<rfloor>"

definition hex_digit :: "nat \<Rightarrow> char" where
  "hex_digit d = ''0123456789abcdef'' ! d"

text \<open>\<^verbatim>\<open>Number.prototype.toString(16)\<close> on an integer: lower-case digits, a minus sign
  in front of a negative value.\<close>

fun hex_digits :: "nat \<Rightarrow> string" where
  "hex_digits n = (if n < 16 then [hex_digit n] else hex_digits (n div 16) @ [hex_digit (n mod 16)])"

definition toString16 :: "int \<Rightarrow> string" where
  "toString16 n = (if n < 0 then CHR ''-'' # hex_digits (nat (- n)) else hex_digits (nat n))"

definition padStart :: "nat \<Rightarrow> char \<Rightarrow> string \<Rightarrow> string" where
  "padStart n c s = replicate (n - length s) c @ s"

definition toHex :: "real \<Rightarrow> string" where
  "toHex c = padStart 2 CHR ''0'' (toString16 (Math_round (c * 255)))"

definition rgbToHex :: "real \<Rightarrow> real \<Rightarrow> real \<Rightarrow> string" where
  "rgbToHex r g b = CHR ''#'' # toHex r @ toHex g @ toHex b"

text \<open>The character class \<^verbatim>\<open>[a-f\d]\<close> under the \<^verbatim>\<open>i\<close> flag, with the value
  \<^verbatim>\<open>parseInt\<close> gives the digit in base 16.\<close>

definition hex_val :: "char \<Rightarrow> nat option" where
  "hex_val c = map_of (zip ''0123456789abcdef'' [0..<16] @ zip ''ABCDEF'' [10..<16]) c"

text \<open>\<^verbatim>\<open>parseInt(s, 16)\<close> on one two-character group of the match.\<close>

definition parseHex2 :: "char \<Rightarrow> char \<Rightarrow> nat option" where
  "parseHex2 a b =
     (case (hex_val a, hex_val b) of (Some x, Some y) \<Rightarrow> Some (16 * x + y) | _ \<Rightarrow> None)"

text \<open>The match of \<^verbatim>\<open>/^#?([a-f\d]{2})([a-f\d]{2})([a-f\d]{2})$/i\<close>: one optional
  leading \<^verbatim>\<open>#\<close>, then exactly six hexadecimal digits; the three groups as numbers.\<close>

definition hex_groups :: "string \<Rightarrow> (nat \<times> nat \<times> nat) option" where
  "hex_groups hex =
     (case (case hex of c # rest \<Rightarrow> (if c = CHR ''#'' then rest else hex) | [] \<Rightarrow> hex) of
        [a, b, c, d, e, f] \<Rightarrow>
          (case (parseHex2 a b, parseHex2 c d, parseHex2 e f) of
             (Some x, Some y, Some z) \<Rightarrow> Some (x, y, z)
           | _ \<Rightarrow> None)
      | _ \<Rightarrow> None)"

definition hexToRgb :: "string \<Rightarrow> rgb" where
  "hexToRgb hex =
     (case hex_groups hex of
        Some (x, y, z) \<Rightarrow> (real x / 255, real y / 255, real z / 255)
      | None \<Rightarrow> (0, 0, 0))"

definition colorsEqual :: "rgb \<Rightarrow> rgb \<Rightarrow> bool" where
  "colorsEqual a b =
     (case (a, b) of ((a0, a1, a2), (b0, b1, b2)) \<Rightarrow>
        \<bar>a0 - b0\<bar> < COLOR_EPSILON \<and> \<bar>a1 - b1\<bar> < COLOR_EPSILON \<and> \<bar>a2 - b2\<bar> < COLOR_EPSILON)"

definition numbersEqual :: "real \<Rightarrow> real \<Rightarrow> bool" where
  "numbersEqual a b = (\<bar>a - b\<bar> < NUMBER_EPSILON)"

section \<open>Non-linear sliders (src/web/utils.ts, SLIDER_CONFIGS of src/web/constants.ts)\<close>

record SliderConfig =
  min_v :: real
  max_v :: real
  exponent :: real
  decimals :: nat

definition SLIDER_CONFIGS :: "string \<Rightarrow> SliderConfig option" where
  "SLIDER_CONFIGS = map_of
     [(''terrain-scale'', \<lparr>min_v = 5 / 10000, max_v = 5 / 100, exponent = 3, decimals = 4\<rparr>),
      (''warp-strength'', \<lparr>min_v = 0, max_v = 100, exponent = 2, decimals = 0\<rparr>),
      (''roughness'', \<lparr>min_v = 1 / 10, max_v = 9 / 10, exponent = 3 / 2, decimals = 2\<rparr>)]"

text \<open>
  \<^verbatim>\<open>Math.pow\<close> on finite arguments.  \<open>None\<close> stands for a result that is not a finite
  number: \<^verbatim>\<open>NaN\<close> for a negative base with a fractional exponent, \<^verbatim>\<open>Infinity\<close> for
  zero to a negative power.
\<close>

definition Math_pow :: "real \<Rightarrow> real \<Rightarrow> real option" where
  "Math_pow x y =
     (if y = 0 then Some 1
      else if 0 < x then Some (x powr y)
      else if x = 0 then (if 0 < y then Some 0 else None)
      else if y = of_int \<lfloor>y\<rfloor> then Some (power_int x \<lfloor>y\<rfloor>)
      else None)"

definition sliderToValue :: "string \<Rightarrow> real \<Rightarrow> real option" where
  "sliderToValue sliderId sliderValue =
     (case SLIDER_CONFIGS sliderId of
        None \<Rightarrow> Some sliderValue
      | Some config \<Rightarrow>
          (let normalized = (sliderValue - min_v config) / (max_v config - min_v config) in
           case Math_pow normalized (exponent config) of
             None \<Rightarrow> None
           | Some curved \<Rightarrow> Some (min_v config + curved * (max_v config - min_v config))))"

definition valueToSlider :: "string \<Rightarrow> real \<Rightarrow> real option" where
  "valueToSlider sliderId actualValue =
     (case SLIDER_CONFIGS sliderId of
        None \<Rightarrow> Some actualValue
      | Some config \<Rightarrow>
          (let clamped = max (min_v config) (min (max_v config) actualValue);
               normalized = (clamped - min_v config) / (max_v config - min_v config) in
           case Math_pow normalized (1 / exponent config) of
             None \<Rightarrow> None
           | Some uncurved \<Rightarrow> Some (min_v config + uncurved * (max_v config - min_v config))))"

section \<open>Terrain settings and change classification (src/web/utils.ts)\<close>

record TerrainSettings =
  terrain_scale :: real
  height_scale :: real
  octaves :: real
  warp_strength :: real
  height_variance :: real
  roughness :: real
  pattern_type :: real
  seed :: real
  ambient :: real
  fog_start :: real
  fog_distance :: real
  color_abyss :: rgb
  color_deep_water :: rgb
  color_shallow_water :: rgb
  color_sand :: rgb
  color_grass :: rgb
  color_rock :: rgb
  color_snow :: rgb
  color_sky :: rgb
  color_sky_top :: rgb
  color_sky_horizon :: rgb

datatype ChangeCategory = none | colors_only | generation

text \<open>The key lists of src/web/constants.ts; a key is the field selector it names.\<close>

definition GENERATION_SETTINGS :: "(TerrainSettings \<Rightarrow> real) list" where
  "GENERATION_SETTINGS =
     [pattern_type, terrain_scale, height_scale, height_variance, octaves, warp_strength,
      roughness]"

definition COLOR_SETTINGS :: "(TerrainSettings \<Rightarrow> rgb) list" where
  "COLOR_SETTINGS =
     [color_abyss, color_deep_water, color_shallow_water, color_sand, color_grass, color_rock,
      color_snow, color_sky, color_sky_top, color_sky_horizon]"

text \<open>The two \<^verbatim>\<open>for ... of\<close> loops set a flag that is never cleared.\<close>

definition categorizeChanges :: "TerrainSettings \<Rightarrow> TerrainSettings \<Rightarrow> ChangeCategory" where
  "categorizeChanges current previous =
     (let generationChanged =
            fold (\<lambda>key changed. if \<not> numbersEqual (key current) (key previous) then True else changed)
              GENERATION_SETTINGS False;
          colorsChanged =
            fold (\<lambda>key changed. if \<not> colorsEqual (key current) (key previous) then True else changed)
              COLOR_SETTINGS False
      in if generationChanged then generation
         else if colorsChanged then colors_only
         else none)"

text \<open>A concrete settings record, for examples; every colour component is a multiple of
  \<open>1 / 5\<close>, so each colour has an exact hex code.\<close>

definition example_terrain :: TerrainSettings where
  "example_terrain =
     \<lparr>terrain_scale = 5 / 10000, height_scale = 100, octaves = 6, warp_strength = 0,
      height_variance = 1 / 2, roughness = 1 / 10, pattern_type = 0, seed = 7,
      ambient = 3 / 10, fog_start = 500, fog_distance = 2000,
      color_abyss = (0, 0, 1 / 5), color_deep_water = (0, 1 / 5, 2 / 5),
      color_shallow_water = (1 / 5, 2 / 5, 3 / 5), color_sand = (4 / 5, 4 / 5, 3 / 5),
      color_grass = (1 / 5, 2 / 5, 1 / 5), color_rock = (2 / 5, 2 / 5, 2 / 5),
      color_snow = (1, 1, 1), color_sky = (3 / 5, 4 / 5, 1),
      color_sky_top = (2 / 5, 3 / 5, 4 / 5), color_sky_horizon = (4 / 5, 4 / 5, 1)\<rparr>"

section \<open>Settings panel state and preset selection (src/unnamed/part_000)\<close>

type_synonym rgba = "real \<times> real \<times> real \<times> real"

record SkySettings =
  star_count :: real
  star_size_min :: real
  star_size_max :: real
  star_color :: rgb
  star_twinkle_speed :: real
  star_parallax :: real
  sun_count :: real
  sun_size :: real
  sun_color :: rgb
  sun_parallax :: real
  moon_count :: real
  moon_size :: real
  moon_color :: rgb
  moon_parallax :: real
  sky_seed :: real

record ParticleSettings =
  particle_type :: real
  density :: real
  max_particles :: real
  speed :: real
  wind_x :: real
  wind_z :: real
  particle_size :: real
  particle_color :: rgba
  spawn_height :: real
  spawn_radius :: real

record FullPreset =
  name :: string
  terrain :: TerrainSettings
  sky :: SkySettings
  particles :: ParticleSettings

record ColorTheme =
  th_abyss :: rgb
  th_deep_water :: rgb
  th_shallow_water :: rgb
  th_sand :: rgb
  th_grass :: rgb
  th_rock :: rgb
  th_snow :: rgb
  th_sky :: rgb
  th_sky_top :: rgb
  th_sky_horizon :: rgb
  th_star_color :: rgb
  th_sun_color :: rgb
  th_moon_color :: rgb

definition SNOW_WEATHER_TYPES :: "string set" where
  "SNOW_WEATHER_TYPES = {''light-snow'', ''heavy-snow'', ''blizzard''}"

text \<open>\<^verbatim>\<open>COLOR_THEMES\<close> in the order of its entries.\<close>

definition COLOR_THEMES :: "(string \<times> ColorTheme) list" where
  "COLOR_THEMES =
     [(''natural'',
       \<lparr>th_abyss = (5 / 100, 1 / 10, 25 / 100), th_deep_water = (1 / 10, 2 / 10, 4 / 10),
        th_shallow_water = (2 / 10, 4 / 10, 6 / 10), th_sand = (76 / 100, 7 / 10, 5 / 10),
        th_grass = (22 / 100, 45 / 100, 15 / 100), th_rock = (45 / 100, 42 / 100, 38 / 100),
        th_snow = (95 / 100, 95 / 100, 98 / 100), th_sky = (6 / 10, 7 / 10, 85 / 100),
        th_sky_top = (4 / 10, 55 / 100, 8 / 10), th_sky_horizon = (75 / 100, 82 / 100, 92 / 100),
        th_star_color = (1, 1, 9 / 10), th_sun_color = (1, 95 / 100, 8 / 10),
        th_moon_color = (9 / 10, 9 / 10, 95 / 100)\<rparr>),
      (''desert'',
       \<lparr>th_abyss = (8 / 100, 5 / 100, 2 / 100), th_deep_water = (15 / 100, 1 / 10, 5 / 100),
        th_shallow_water = (35 / 100, 25 / 100, 15 / 100), th_sand = (9 / 10, 8 / 10, 6 / 10),
        th_grass = (7 / 10, 6 / 10, 4 / 10), th_rock = (55 / 100, 45 / 100, 35 / 100),
        th_snow = (95 / 100, 9 / 10, 85 / 100), th_sky = (85 / 100, 75 / 100, 6 / 10),
        th_sky_top = (6 / 10, 5 / 10, 35 / 100), th_sky_horizon = (95 / 100, 85 / 100, 7 / 10),
        th_star_color = (1, 95 / 100, 8 / 10), th_sun_color = (1, 85 / 100, 5 / 10),
        th_moon_color = (95 / 100, 9 / 10, 8 / 10)\<rparr>),
      (''arctic'',
       \<lparr>th_abyss = (2 / 100, 8 / 100, 15 / 100), th_deep_water = (5 / 100, 15 / 100, 25 / 100),
        th_shallow_water = (2 / 10, 35 / 100, 5 / 10), th_sand = (7 / 10, 75 / 100, 8 / 10),
        th_grass = (5 / 10, 55 / 100, 5 / 10), th_rock = (4 / 10, 42 / 100, 45 / 100),
        th_snow = (98 / 100, 98 / 100, 1), th_sky = (75 / 100, 85 / 100, 95 / 100),
        th_sky_top = (5 / 10, 65 / 100, 85 / 100), th_sky_horizon = (85 / 100, 9 / 10, 98 / 100),
        th_star_color = (9 / 10, 95 / 100, 1), th_sun_color = (1, 98 / 100, 95 / 100),
        th_moon_color = (85 / 100, 9 / 10, 1)\<rparr>),
      (''alien'',
       \<lparr>th_abyss = (5 / 100, 2 / 100, 1 / 10), th_deep_water = (1 / 10, 5 / 100, 2 / 10),
        th_shallow_water = (2 / 10, 1 / 10, 35 / 100), th_sand = (4 / 10, 5 / 10, 3 / 10),
        th_grass = (1 / 10, 5 / 10, 4 / 10), th_rock = (3 / 10, 25 / 100, 4 / 10),
        th_snow = (7 / 10, 9 / 10, 85 / 100), th_sky = (5 / 10, 35 / 100, 6 / 10),
        th_sky_top = (3 / 10, 15 / 100, 5 / 10), th_sky_horizon = (6 / 10, 45 / 100, 7 / 10),
        th_star_color = (8 / 10, 5 / 10, 1), th_sun_color = (3 / 10, 1, 5 / 10),
        th_moon_color = (7 / 10, 3 / 10, 9 / 10)\<rparr>),
      (''volcanic'',
       \<lparr>th_abyss = (2 / 100, 1 / 100, 1 / 100), th_deep_water = (5 / 100, 2 / 100, 2 / 100),
        th_shallow_water = (15 / 100, 5 / 100, 2 / 100), th_sand = (25 / 100, 15 / 100, 1 / 10),
        th_grass = (2 / 10, 15 / 100, 1 / 10), th_rock = (15 / 100, 12 / 100, 1 / 10),
        th_snow = (9 / 10, 4 / 10, 1 / 10), th_sky = (3 / 10, 2 / 10, 15 / 100),
        th_sky_top = (15 / 100, 8 / 100, 5 / 100), th_sky_horizon = (5 / 10, 3 / 10, 2 / 10),
        th_star_color = (1, 6 / 10, 3 / 10), th_sun_color = (1, 4 / 10, 1 / 10),
        th_moon_color = (8 / 10, 3 / 10, 2 / 10)\<rparr>),
      (''ink'',
       \<lparr>th_abyss = (2 / 100, 2 / 100, 2 / 100), th_deep_water = (5 / 100, 5 / 100, 5 / 100),
        th_shallow_water = (15 / 100, 15 / 100, 15 / 100), th_sand = (25 / 100, 25 / 100, 25 / 100),
        th_grass = (12 / 100, 12 / 100, 12 / 100), th_rock = (3 / 10, 3 / 10, 3 / 10),
        th_snow = (8 / 100, 8 / 100, 8 / 100), th_sky = (76 / 100, 76 / 100, 76 / 100),
        th_sky_top = (6 / 10, 6 / 10, 6 / 10), th_sky_horizon = (85 / 100, 85 / 100, 85 / 100),
        th_star_color = (1 / 10, 1 / 10, 1 / 10), th_sun_color = (15 / 100, 15 / 100, 15 / 100),
        th_moon_color = (8 / 100, 8 / 100, 8 / 100)\<rparr>),
      (''chalk'',
       \<lparr>th_abyss = (4 / 10, 4 / 10, 4 / 10), th_deep_water = (6 / 10, 6 / 10, 6 / 10),
        th_shallow_water = (7 / 10, 7 / 10, 7 / 10), th_sand = (85 / 100, 85 / 100, 85 / 100),
        th_grass = (75 / 100, 75 / 100, 75 / 100), th_rock = (9 / 10, 9 / 10, 9 / 10),
        th_snow = (98 / 100, 98 / 100, 98 / 100), th_sky = (5 / 100, 5 / 100, 5 / 100),
        th_sky_top = (2 / 100, 2 / 100, 2 / 100), th_sky_horizon = (15 / 100, 15 / 100, 15 / 100),
        th_star_color = (95 / 100, 95 / 100, 95 / 100), th_sun_color = (1, 1, 1),
        th_moon_color = (9 / 10, 9 / 10, 9 / 10)\<rparr>)]"

text \<open>
  The page.  A control of the settings panel is a number control (range sliders and the
  pattern select, whose value text is read with \<^verbatim>\<open>parseFloat\<close> or \<^verbatim>\<open>parseInt\<close>) or a
  text control (colour inputs and the other selects).  \<open>number_inputs st id = None\<close> means
  the page has no such element; otherwise the value is the number the text denotes, or
  \<open>None\<close> for a text that parses to \<^verbatim>\<open>NaN\<close>.  Writing \<^verbatim>\<open>x.toString()\<close> to a control and
  parsing it back gives \<open>x\<close>.  What a browser does to a value beyond that (range limits,
  steps, option lists) depends on the HTML page, which is not among the sources, and is
  not modelled; the value displays beside the sliders and the CSS classes are only ever
  written and are left out.

  The module variables keep their names.  The three default records are fetched before
  the preset buttons exist, so whenever \<^verbatim>\<open>selectPreset\<close> runs they are defined, and they
  are plain values here.  \<open>presets\<close> is the table behind \<^verbatim>\<open>get_preset\<close> (no entry: the
  call throws), \<open>random_draws\<close> the outcomes of \<^verbatim>\<open>Math.random()\<close> in the order they
  will be drawn, \<open>drawn\<close> how many have been used.
\<close>

type_synonym js_number = "real option"

record page =
  number_inputs :: "string \<Rightarrow> js_number option"
  text_inputs :: "string \<Rightarrow> string option"
  DEFAULT_TERRAIN_SETTINGS :: TerrainSettings
  DEFAULT_SKY_SETTINGS :: SkySettings
  DEFAULT_PARTICLE_SETTINGS :: ParticleSettings
  currentParticleSize :: "real option"
  currentPresetId :: "string option"
  savedCustomSettings :: "(TerrainSettings \<times> SkySettings \<times> ParticleSettings) option"
  lastAppliedSettings :: "TerrainSettings option"
  lastAppliedSkySettings :: "SkySettings option"
  lastAppliedParticleSettings :: "ParticleSettings option"
  presets :: "string \<Rightarrow> FullPreset option"
  engine_terrain :: "TerrainSettings option"
  engine_sky :: "SkySettings option"
  engine_particles :: "ParticleSettings option"
  generated_from :: "TerrainSettings option"
  random_draws :: "nat \<Rightarrow> real"
  drawn :: nat

text \<open>
  Modelled from the spec: the engine behind the host-exposed operations (the
  \<^verbatim>\<open>update_*_settings\<close> setters and \<^verbatim>\<open>regenerate_terrain\<close>) is absent from src/.  Following the spec ("All setters are total functions over
  validated settings records; regeneration is an explicit separate call, never implicit
  in a setter"), a setter stores the record as the engine's current settings and
  \<^verbatim>\<open>regenerate_terrain\<close> records the terrain settings the heightfield is generated from.
\<close>

definition update_terrain_settings :: "TerrainSettings \<Rightarrow> page \<Rightarrow> page" where
  "update_terrain_settings t st = st\<lparr>engine_terrain := Some t\<rparr>"

definition regenerate_terrain :: "page \<Rightarrow> page" where
  "regenerate_terrain st = st\<lparr>generated_from := engine_terrain st\<rparr>"

definition update_sky_settings :: "SkySettings \<Rightarrow> page \<Rightarrow> page" where
  "update_sky_settings s st = st\<lparr>engine_sky := Some s\<rparr>"

definition update_particle_settings :: "ParticleSettings \<Rightarrow> page \<Rightarrow> page" where
  "update_particle_settings p st = st\<lparr>engine_particles := Some p\<rparr>"

definition seed_of_draw :: "real \<Rightarrow> real" where
  "seed_of_draw r = of_int \<lfloor>r * SEED_MAX\<rfloor>"

definition generateSeed :: "page \<Rightarrow> real \<times> page" where
  "generateSeed st = (seed_of_draw (random_draws st (drawn st)), st\<lparr>drawn := Suc (drawn st)\<rparr>)"

text \<open>\<^verbatim>\<open>parseInt\<close> of a number printed in positional notation: the digits before the point.\<close>

definition truncate_number :: "real \<Rightarrow> real" where
  "truncate_number x = of_int (if 0 \<le> x then \<lfloor>x\<rfloor> else \<lceil>x\<rceil>)"

definition parseInt :: "js_number \<Rightarrow> js_number" where
  "parseInt v = map_option truncate_number v"

text \<open>Reading a number control for a settings field.  \<open>None\<close>: the element is missing (the
  access throws a \<^verbatim>\<open>TypeError\<close>) or its text is not a number (the field would be \<^verbatim>\<open>NaN\<close>,
  which a settings record of this model cannot hold).\<close>

definition read_number :: "page \<Rightarrow> string \<Rightarrow> real option" where
  "read_number st ident = (case number_inputs st ident of Some (Some x) \<Rightarrow> Some x | _ \<Rightarrow> None)"

definition detectTheme :: "TerrainSettings \<Rightarrow> string option" where
  "detectTheme settings =
     map_option fst
       (find (\<lambda>(themeName, theme).
                colorsEqual (color_abyss settings) (th_abyss theme) \<and>
                colorsEqual (color_deep_water settings) (th_deep_water theme) \<and>
                colorsEqual (color_shallow_water settings) (th_shallow_water theme) \<and>
                colorsEqual (color_sand settings) (th_sand theme) \<and>
                colorsEqual (color_grass settings) (th_grass theme) \<and>
                colorsEqual (color_rock settings) (th_rock theme) \<and>
                colorsEqual (color_snow settings) (th_snow theme))
          COLOR_THEMES)"

text \<open>The arguments that the source passes as strings and parses are passed parsed
  (\<open>None\<close> for \<^verbatim>\<open>NaN\<close>); \<open>overrides\<close> is \<^verbatim>\<open>overrides.particleSize\<close>.  The warnings go to
  the console only.\<close>

definition buildParticleSettingsFromValues ::
  "js_number \<Rightarrow> js_number \<Rightarrow> js_number \<Rightarrow> js_number \<Rightarrow> string \<Rightarrow> string \<Rightarrow> real option \<Rightarrow> page
     \<Rightarrow> ParticleSettings" where
  "buildParticleSettingsFromValues densityValue speedValue windXValue windZValue colorHex
       weatherPreset overrides st =
     (let dens = (case densityValue of None \<Rightarrow> 0 | Some d \<Rightarrow> if d < 0 then 0 else d);
          spd = (case speedValue of None \<Rightarrow> speed (DEFAULT_PARTICLE_SETTINGS st)
                 | Some v \<Rightarrow> if v < 0 then speed (DEFAULT_PARTICLE_SETTINGS st) else v);
          windX = (case windXValue of None \<Rightarrow> 0 | Some w \<Rightarrow> w);
          windZ = (case windZValue of None \<Rightarrow> 0 | Some w \<Rightarrow> w);
          colour = hexToRgb colorHex;
          isSnow = (weatherPreset \<in> SNOW_WEATHER_TYPES);
          defaultSize = particle_size (DEFAULT_PARTICLE_SETTINGS st);
          particleSize = (case overrides of Some s \<Rightarrow> s
                          | None \<Rightarrow> (case currentParticleSize st of Some s \<Rightarrow> s | None \<Rightarrow> defaultSize));
          maxParticles = max_particles (DEFAULT_PARTICLE_SETTINGS st)
      in \<lparr>particle_type = (if 0 < dens then (if isSnow then 1 else 0) else 0),
          density = dens,
          max_particles = maxParticles,
          speed = spd,
          wind_x = windX,
          wind_z = windZ,
          particle_size = particleSize,
          particle_color = (fst colour, fst (snd colour), snd (snd colour), 6 / 10),
          spawn_height = spawn_height (DEFAULT_PARTICLE_SETTINGS st),
          spawn_radius = spawn_radius (DEFAULT_PARTICLE_SETTINGS st)\<rparr>)"

text \<open>The collectors.  \<open>seed_arg = None\<close> is a call without the optional seed: a new seed
  is generated.  The result is \<open>None\<close> when a read fails as described at \<open>read_number\<close>, or
  \<open>sliderToValue\<close> has no finite result.\<close>

definition collectTerrainSettings :: "real option \<Rightarrow> page \<Rightarrow> (TerrainSettings \<times> page) option" where
  "collectTerrainSettings seed_arg st = do {
     let base = (case lastAppliedSettings st of Some b \<Rightarrow> b | None \<Rightarrow> DEFAULT_TERRAIN_SETTINGS st);
     ts \<leftarrow> Option.bind (read_number st ''terrain-scale'') (sliderToValue ''terrain-scale'');
     hs \<leftarrow> read_number st ''height-scale'';
     oc \<leftarrow> Option.bind (number_inputs st ''octaves'') parseInt;
     ws \<leftarrow> Option.bind (read_number st ''warp-strength'') (sliderToValue ''warp-strength'');
     hv \<leftarrow> read_number st ''height-variance'';
     ro \<leftarrow> Option.bind (read_number st ''roughness'') (sliderToValue ''roughness'');
     pt \<leftarrow> Option.bind (number_inputs st ''pattern-type'') parseInt;
     let (sd, st') = (case seed_arg of Some s \<Rightarrow> (s, st) | None \<Rightarrow> generateSeed st);
     c_abyss \<leftarrow> text_inputs st ''color-abyss'';
     c_deep_water \<leftarrow> text_inputs st ''color-deep-water'';
     c_shallow_water \<leftarrow> text_inputs st ''color-shallow-water'';
     c_sand \<leftarrow> text_inputs st ''color-sand'';
     c_grass \<leftarrow> text_inputs st ''color-grass'';
     c_rock \<leftarrow> text_inputs st ''color-rock'';
     c_snow \<leftarrow> text_inputs st ''color-snow'';
     c_sky \<leftarrow> text_inputs st ''color-sky'';
     c_sky_top \<leftarrow> text_inputs st ''color-sky-top'';
     c_sky_horizon \<leftarrow> text_inputs st ''color-sky-horizon'';
     Some (\<lparr>terrain_scale = ts, height_scale = hs, octaves = oc, warp_strength = ws,
            height_variance = hv, roughness = ro, pattern_type = pt, seed = sd,
            ambient = ambient base, fog_start = fog_start base, fog_distance = fog_distance base,
            color_abyss = hexToRgb c_abyss, color_deep_water = hexToRgb c_deep_water,
            color_shallow_water = hexToRgb c_shallow_water, color_sand = hexToRgb c_sand,
            color_grass = hexToRgb c_grass, color_rock = hexToRgb c_rock,
            color_snow = hexToRgb c_snow, color_sky = hexToRgb c_sky,
            color_sky_top = hexToRgb c_sky_top, color_sky_horizon = hexToRgb c_sky_horizon\<rparr>, st')
   }"

definition collectSkySettings :: "real option \<Rightarrow> page \<Rightarrow> (SkySettings \<times> page) option" where
  "collectSkySettings seed_arg st = do {
     let base = (case lastAppliedSkySettings st of Some b \<Rightarrow> b | None \<Rightarrow> DEFAULT_SKY_SETTINGS st);
     stars \<leftarrow> Option.bind (number_inputs st ''star-count'') parseInt;
     c_star \<leftarrow> text_inputs st ''star-color'';
     suns \<leftarrow> Option.bind (number_inputs st ''sun-count'') parseInt;
     c_sun \<leftarrow> text_inputs st ''sun-color'';
     moons \<leftarrow> Option.bind (number_inputs st ''moon-count'') parseInt;
     c_moon \<leftarrow> text_inputs st ''moon-color'';
     let (sd, st') = (case seed_arg of Some s \<Rightarrow> (s, st) | None \<Rightarrow> generateSeed st);
     Some (\<lparr>star_count = stars, star_size_min = star_size_min base,
            star_size_max = star_size_max base, star_color = hexToRgb c_star,
            star_twinkle_speed = star_twinkle_speed base, star_parallax = star_parallax base,
            sun_count = suns, sun_size = sun_size base, sun_color = hexToRgb c_sun,
            sun_parallax = sun_parallax base, moon_count = moons, moon_size = moon_size base,
            moon_color = hexToRgb c_moon, moon_parallax = moon_parallax base, sky_seed = sd\<rparr>, st')
   }"

definition collectParticleSettings :: "page \<Rightarrow> ParticleSettings option" where
  "collectParticleSettings st = do {
     let baseSize = (case currentParticleSize st of Some s \<Rightarrow> s
                     | None \<Rightarrow> particle_size (DEFAULT_PARTICLE_SETTINGS st));
     dens \<leftarrow> number_inputs st ''particle-density'';
     spd \<leftarrow> number_inputs st ''particle-speed'';
     wx \<leftarrow> number_inputs st ''wind-x'';
     wz \<leftarrow> number_inputs st ''wind-z'';
     colour \<leftarrow> text_inputs st ''particle-color'';
     weather \<leftarrow> text_inputs st ''weather-preset'';
     Some (buildParticleSettingsFromValues dens spd wx wz colour weather (Some baseSize) st)
   }"

definition syncLastAppliedFromUI :: "real \<Rightarrow> real \<Rightarrow> page \<Rightarrow> page option" where
  "syncLastAppliedFromUI terrainSeed skySeed st = do {
     (t, st1) \<leftarrow> collectTerrainSettings (Some terrainSeed) st;
     let st2 = st1\<lparr>lastAppliedSettings := Some t\<rparr>;
     (s, st3) \<leftarrow> collectSkySettings (Some skySeed) st2;
     let st4 = st3\<lparr>lastAppliedSkySettings := Some s\<rparr>;
     p \<leftarrow> collectParticleSettings st4;
     Some (st4\<lparr>lastAppliedParticleSettings := Some p, currentParticleSize := Some (particle_size p)\<rparr>)
   }"

text \<open>Writes to controls; each is guarded by the existence of the element.\<close>

definition setSliderValue :: "string \<Rightarrow> real \<Rightarrow> page \<Rightarrow> page" where
  "setSliderValue ident v st =
     (if number_inputs st ident = None then st
      else st\<lparr>number_inputs := (number_inputs st)(ident \<mapsto> valueToSlider ident v)\<rparr>)"

definition setSelectNumber :: "string \<Rightarrow> real \<Rightarrow> page \<Rightarrow> page" where
  "setSelectNumber ident v st =
     (if number_inputs st ident = None then st
      else st\<lparr>number_inputs := (number_inputs st)(ident \<mapsto> Some v)\<rparr>)"

definition setSelectText :: "string \<Rightarrow> string \<Rightarrow> page \<Rightarrow> page" where
  "setSelectText ident v st =
     (if text_inputs st ident = None then st
      else st\<lparr>text_inputs := (text_inputs st)(ident \<mapsto> v)\<rparr>)"

definition setColorInputValue :: "string \<Rightarrow> rgb \<Rightarrow> page \<Rightarrow> page" where
  "setColorInputValue ident colour st =
     (if text_inputs st ident = None then st
      else st\<lparr>text_inputs :=
              (text_inputs st)(ident \<mapsto> rgbToHex (fst colour) (fst (snd colour)) (snd (snd colour)))\<rparr>)"

definition setTerrainColorInputs :: "TerrainSettings \<Rightarrow> page \<Rightarrow> page" where
  "setTerrainColorInputs colors st =
     fold (\<lambda>f. f)
       [setColorInputValue ''color-abyss'' (color_abyss colors),
        setColorInputValue ''color-deep-water'' (color_deep_water colors),
        setColorInputValue ''color-shallow-water'' (color_shallow_water colors),
        setColorInputValue ''color-sand'' (color_sand colors),
        setColorInputValue ''color-grass'' (color_grass colors),
        setColorInputValue ''color-rock'' (color_rock colors),
        setColorInputValue ''color-snow'' (color_snow colors),
        setColorInputValue ''color-sky'' (color_sky colors),
        setColorInputValue ''color-sky-top'' (color_sky_top colors),
        setColorInputValue ''color-sky-horizon'' (color_sky_horizon colors)] st"

definition setSkyColorInputs :: "SkySettings \<Rightarrow> page \<Rightarrow> page" where
  "setSkyColorInputs colors st =
     fold (\<lambda>f. f)
       [setColorInputValue ''star-color'' (star_color colors),
        setColorInputValue ''sun-color'' (sun_color colors),
        setColorInputValue ''moon-color'' (moon_color colors)] st"

definition setParticleColorInput :: "rgba \<Rightarrow> page \<Rightarrow> page" where
  "setParticleColorInput colour st =
     (case colour of (r, g, b, a) \<Rightarrow> setColorInputValue ''particle-color'' (r, g, b) st)"

definition setActivePreset :: "string \<Rightarrow> page \<Rightarrow> page" where
  "setActivePreset presetId st = st\<lparr>currentPresetId := Some presetId\<rparr>"

definition applyPresetToUI :: "FullPreset \<Rightarrow> page \<Rightarrow> page" where
  "applyPresetToUI preset st =
     fold (\<lambda>f. f)
       [setSelectNumber ''pattern-type'' (pattern_type (terrain preset)),
        setSliderValue ''terrain-scale'' (terrain_scale (terrain preset)),
        setSliderValue ''height-scale'' (height_scale (terrain preset)),
        setSliderValue ''height-variance'' (height_variance (terrain preset)),
        setSliderValue ''octaves'' (octaves (terrain preset)),
        setSliderValue ''warp-strength'' (warp_strength (terrain preset)),
        setSliderValue ''roughness'' (roughness (terrain preset)),
        setTerrainColorInputs (terrain preset),
        setSliderValue ''star-count'' (star_count (sky preset)),
        setSliderValue ''sun-count'' (sun_count (sky preset)),
        setSliderValue ''moon-count'' (moon_count (sky preset)),
        setSkyColorInputs (sky preset),
        setSliderValue ''particle-density'' (density (particles preset)),
        setSliderValue ''particle-speed'' (speed (particles preset)),
        setSliderValue ''wind-x'' (wind_x (particles preset)),
        setSliderValue ''wind-z'' (wind_z (particles preset)),
        setParticleColorInput (particle_color (particles preset)),
        (\<lambda>s. s\<lparr>currentParticleSize := Some (particle_size (particles preset))\<rparr>),
        (\<lambda>s. case detectTheme (terrain preset) of
                None \<Rightarrow> s
              | Some detectedTheme \<Rightarrow> setSelectText ''color-theme'' detectedTheme s),
        setSelectText ''sky-preset'' ''none'',
        setSelectText ''weather-preset'' ''none''] st"

text \<open>The block of \<^verbatim>\<open>selectPreset\<close> under "Save current settings before switching away from
  custom".  \<open>None\<close>: a collector fails, and with it the call (the block is outside the
  \<^verbatim>\<open>try\<close>).\<close>

definition saveCustomSettings :: "page \<Rightarrow> page option" where
  "saveCustomSettings st =
     (if currentPresetId st = Some ''custom'' then do {
        (t, sa) \<leftarrow> collectTerrainSettings None st;
        (s, sb) \<leftarrow> collectSkySettings None sa;
        p \<leftarrow> collectParticleSettings sb;
        Some (sb\<lparr>savedCustomSettings := Some (t, s, p)\<rparr>)
      } else Some st)"

text \<open>The body of the \<^verbatim>\<open>try\<close> block once \<^verbatim>\<open>get_preset\<close> has returned \<open>preset\<close>.\<close>

definition applyFetchedPreset :: "string \<Rightarrow> FullPreset \<Rightarrow> page \<Rightarrow> page" where
  "applyFetchedPreset presetId preset st1 =
     (let st2 = applyPresetToUI preset st1;
          (seed1, st3) = generateSeed st2;
          terrainSettings = (terrain preset)\<lparr>seed := seed1\<rparr>;
          (seed2, st4) = generateSeed st3;
          skySettings = (sky preset)\<lparr>sky_seed := seed2\<rparr>;
          st5 = update_particle_settings (particles preset)
                  (update_sky_settings skySettings
                     (regenerate_terrain (update_terrain_settings terrainSettings st4)));
          st6 = setActivePreset presetId st5
      in st6\<lparr>lastAppliedSettings := Some terrainSettings,
             lastAppliedSkySettings := Some skySettings,
             lastAppliedParticleSettings := Some (particles preset),
             currentParticleSize := Some (particle_size (particles preset))\<rparr>)"

text \<open>
  \<^verbatim>\<open>selectPreset\<close>.  \<open>None\<close>: the call does not return normally (a collector fails outside
  the \<^verbatim>\<open>try\<close> block).  A \<^verbatim>\<open>get_preset\<close> that throws is caught inside the \<^verbatim>\<open>try\<close> block:
  the call returns, and what was done before stays done.
\<close>

definition selectPreset :: "string \<Rightarrow> page \<Rightarrow> page option" where
  "selectPreset presetId st =
     (if presetId = ''custom'' then
        (case savedCustomSettings st of
           Some (t, s, p) \<Rightarrow> do {
             let st1 = applyPresetToUI \<lparr>name = ''Custom'', terrain = t, sky = s, particles = p\<rparr> st;
             let st2 = update_particle_settings p
                         (update_sky_settings s (regenerate_terrain (update_terrain_settings t st1)));
             st3 \<leftarrow> syncLastAppliedFromUI (seed t) (sky_seed s) st2;
             Some (setActivePreset ''custom'' st3)
           }
         | None \<Rightarrow> Some (setActivePreset ''custom'' st))
      else do {
        st1 \<leftarrow> saveCustomSettings st;
        Some (case presets st1 presetId of
                None \<Rightarrow> st1
              | Some preset \<Rightarrow> applyFetchedPreset presetId preset st1)
      })"

text \<open>A concrete page for examples: every control exists, the identity is \<^verbatim>\<open>custom\<close>, one
  preset is known, and every random draw gives the seed 42.\<close>

definition example_sky :: SkySettings where
  "example_sky =
     \<lparr>star_count = 300, star_size_min = 1 / 2, star_size_max = 5 / 2, star_color = (1, 1, 4 / 5),
      star_twinkle_speed = 1, star_parallax = 1 / 10, sun_count = 0, sun_size = 50,
      sun_color = (1, 4 / 5, 3 / 5), sun_parallax = 1 / 20, moon_count = 1, moon_size = 40,
      moon_color = (4 / 5, 4 / 5, 4 / 5), moon_parallax = 2 / 25, sky_seed = 11\<rparr>"

definition example_particles :: ParticleSettings where
  "example_particles =
     \<lparr>particle_type = 0, density = 0, max_particles = 50000, speed = 30, wind_x = 2, wind_z = 1,
      particle_size = 1 / 2, particle_color = (3 / 5, 4 / 5, 1, 3 / 5), spawn_height = 50,
      spawn_radius = 100\<rparr>"

definition example_preset :: FullPreset where
  "example_preset =
     \<lparr>name = ''Alpine'',
      terrain = example_terrain\<lparr>pattern_type := 1, terrain_scale := 1 / 100, seed := 42,
                  ambient := 1 / 2\<rparr>,
      sky = example_sky\<lparr>star_count := 0, sky_seed := 42\<rparr>,
      particles = example_particles\<lparr>particle_type := 1, density := 3 / 10\<rparr>\<rparr>"

definition example_page :: page where
  "example_page =
     \<lparr>number_inputs = map_of
        [(''terrain-scale'', Some (5 / 10000)), (''height-scale'', Some 100),
         (''height-variance'', Some (1 / 2)), (''octaves'', Some 6), (''warp-strength'', Some 0),
         (''roughness'', Some (1 / 10)), (''pattern-type'', Some 0), (''star-count'', Some 300),
         (''sun-count'', Some 0), (''moon-count'', Some 1), (''particle-density'', Some 0),
         (''particle-speed'', Some 30), (''wind-x'', Some 2), (''wind-z'', Some 1)],
      text_inputs = map_of
        [(''color-abyss'', ''#000033''), (''color-deep-water'', ''#003366''),
         (''color-shallow-water'', ''#336699''), (''color-sand'', ''#cccc99''),
         (''color-grass'', ''#336633''), (''color-rock'', ''#666666''),
         (''color-snow'', ''#ffffff''), (''color-sky'', ''#99ccff''),
         (''color-sky-top'', ''#6699cc''), (''color-sky-horizon'', ''#ccccff''),
         (''star-color'', ''#ffffcc''), (''sun-color'', ''#ffcc99''), (''moon-color'', ''#cccccc''),
         (''particle-color'', ''#99ccff''), (''color-theme'', ''natural''),
         (''sky-preset'', ''none''), (''weather-preset'', ''none'')],
      DEFAULT_TERRAIN_SETTINGS = example_terrain,
      DEFAULT_SKY_SETTINGS = example_sky,
      DEFAULT_PARTICLE_SETTINGS = example_particles,
      currentParticleSize = Some (1 / 2),
      currentPresetId = Some ''custom'',
      savedCustomSettings = None,
      lastAppliedSettings = Some example_terrain,
      lastAppliedSkySettings = Some example_sky,
      lastAppliedParticleSettings = Some example_particles,
      presets = map_of [(''alpine'', example_preset)],
      engine_terrain = Some example_terrain,
      engine_sky = Some example_sky,
      engine_particles = Some example_particles,
      generated_from = Some example_terrain,
      random_draws = (\<lambda>k. 17 / 400000),
      drawn = 0\<rparr>"

text \<open>Writing to a control that exists, as a function on the table of controls; and the
  two tables as \<^verbatim>\<open>applyPresetToUI\<close> leaves them (used to state what it does).\<close>

definition put :: "string \<Rightarrow> 'v \<Rightarrow> (string \<Rightarrow> 'v option) \<Rightarrow> (string \<Rightarrow> 'v option)" where
  "put k v m = (if m k = None then m else m(k \<mapsto> v))"

definition put_all :: "(string \<times> 'v) list \<Rightarrow> (string \<Rightarrow> 'v option) \<Rightarrow> (string \<Rightarrow> 'v option)" where
  "put_all ups m = fold (\<lambda>(k, v). put k v) ups m"

definition hex_of :: "rgb \<Rightarrow> string" where
  "hex_of c = rgbToHex (fst c) (fst (snd c)) (snd (snd c))"

definition preset_numbers :: "FullPreset \<Rightarrow> (string \<Rightarrow> js_number option) \<Rightarrow> (string \<Rightarrow> js_number option)" where
  "preset_numbers preset m =
     put_all
       [(''pattern-type'', Some (pattern_type (terrain preset))),
        (''terrain-scale'', valueToSlider ''terrain-scale'' (terrain_scale (terrain preset))),
        (''height-scale'', valueToSlider ''height-scale'' (height_scale (terrain preset))),
        (''height-variance'', valueToSlider ''height-variance'' (height_variance (terrain preset))),
        (''octaves'', valueToSlider ''octaves'' (octaves (terrain preset))),
        (''warp-strength'', valueToSlider ''warp-strength'' (warp_strength (terrain preset))),
        (''roughness'', valueToSlider ''roughness'' (roughness (terrain preset))),
        (''star-count'', valueToSlider ''star-count'' (star_count (sky preset))),
        (''sun-count'', valueToSlider ''sun-count'' (sun_count (sky preset))),
        (''moon-count'', valueToSlider ''moon-count'' (moon_count (sky preset))),
        (''particle-density'', valueToSlider ''particle-density'' (density (particles preset))),
        (''particle-speed'', valueToSlider ''particle-speed'' (speed (particles preset))),
        (''wind-x'', valueToSlider ''wind-x'' (wind_x (particles preset))),
        (''wind-z'', valueToSlider ''wind-z'' (wind_z (particles preset)))] m"

definition preset_texts :: "FullPreset \<Rightarrow> (string \<Rightarrow> string option) \<Rightarrow> (string \<Rightarrow> string option)" where
  "preset_texts preset m =
     put_all
       ([(''color-abyss'', hex_of (color_abyss (terrain preset))),
         (''color-deep-water'', hex_of (color_deep_water (terrain preset))),
         (''color-shallow-water'', hex_of (color_shallow_water (terrain preset))),
         (''color-sand'', hex_of (color_sand (terrain preset))),
         (''color-grass'', hex_of (color_grass (terrain preset))),
         (''color-rock'', hex_of (color_rock (terrain preset))),
         (''color-snow'', hex_of (color_snow (terrain preset))),
         (''color-sky'', hex_of (color_sky (terrain preset))),
         (''color-sky-top'', hex_of (color_sky_top (terrain preset))),
         (''color-sky-horizon'', hex_of (color_sky_horizon (terrain preset))),
         (''star-color'', hex_of (star_color (sky preset))),
         (''sun-color'', hex_of (sun_color (sky preset))),
         (''moon-color'', hex_of (moon_color (sky preset))),
         (''particle-color'',
          case particle_color (particles preset) of (r, g, b, a) \<Rightarrow> rgbToHex r g b)]
        @ (case detectTheme (terrain preset) of None \<Rightarrow> [] | Some th \<Rightarrow> [(''color-theme'', th)])
        @ [(''sky-preset'', ''none''), (''weather-preset'', ''none'')]) m"





section \<open>Heightfield kernel (src/shaders/terrain.wgsl)\<close>

text \<open>
  An \<^verbatim>\<open>f32\<close> of the terrain shader is the real number it denotes; an operation of the
  kernel whose result is not a finite number (a division by zero, \<^verbatim>\<open>pow\<close> of a negative
  base) gives \<open>None\<close>.  \<^verbatim>\<open>u32\<close> and \<^verbatim>\<open>i32\<close> are 32-bit words; \<^verbatim>\<open>i32(x)\<close> keeps the bits
  and the signed reading is \<open>sint\<close>.
\<close>

type_synonym u32 = "32 word"
type_synonym i32 = "32 word"
type_synonym vec2f = "real \<times> real"
type_synonym vec3f = "real \<times> real \<times> real"

definition CHUNK_SIZE :: u32 where
  "CHUNK_SIZE = 64"

definition CHUNK_WORLD_SIZE :: real where
  "CHUNK_WORLD_SIZE = 256"

definition floor_f :: "real \<Rightarrow> real" where
  "floor_f x = of_int \<lfloor>x\<rfloor>"

definition fract :: "real \<Rightarrow> real" where
  "fract x = x - floor_f x"

definition v2scale :: "vec2f \<Rightarrow> real \<Rightarrow> vec2f" where
  "v2scale v k = (fst v * k, snd v * k)"

definition v2add :: "vec2f \<Rightarrow> vec2f \<Rightarrow> vec2f" where
  "v2add a b = (fst a + fst b, snd a + snd b)"

definition v3map :: "(real \<Rightarrow> real) \<Rightarrow> vec3f \<Rightarrow> vec3f" where
  "v3map f v = (case v of (a, b, c) \<Rightarrow> (f a, f b, f c))"

definition v3zip :: "(real \<Rightarrow> real \<Rightarrow> real) \<Rightarrow> vec3f \<Rightarrow> vec3f \<Rightarrow> vec3f" where
  "v3zip f v w = (case (v, w) of ((a, b, c), (d, e, g)) \<Rightarrow> (f a d, f b e, f c g))"

definition dot3 :: "vec3f \<Rightarrow> vec3f \<Rightarrow> real" where
  "dot3 v w = (case (v, w) of ((a, b, c), (d, e, g)) \<Rightarrow> a * d + b * e + c * g)"

definition mod289 :: "real \<Rightarrow> real" where
  "mod289 x = x - floor_f (x * (1 / 289)) * 289"

definition permute3 :: "vec3f \<Rightarrow> vec3f" where
  "permute3 x = v3map (\<lambda>c. mod289 (((c * 34) + 1) * c)) x"

definition simplex_noise_2d :: "vec2f \<Rightarrow> real" where
  "simplex_noise_2d v =
     (let Cx = 211324865405187 / 10 ^ 15;
          Cy = 366025403784439 / 10 ^ 15;
          Cz = - 577350269189626 / 10 ^ 15;
          Cw = 24390243902439 / 10 ^ 15;
          vx = fst v; vy = snd v;
          d = vx * Cy + vy * Cy;
          ix = floor_f (vx + d); iy = floor_f (vy + d);
          e = ix * Cx + iy * Cx;
          x0x = vx - ix + e; x0y = vy - iy + e;
          i1x = (if x0x > x0y then 1 else 0);
          i1y = (if x0x > x0y then 0 else 1);
          x12x = x0x + Cx - i1x; x12y = x0y + Cx - i1y;
          x12z = x0x + Cz; x12w = x0y + Cz;
          jx = mod289 ix; jy = mod289 iy;
          p = permute3 (v3zip (+) (v3map (\<lambda>c. c + jx) (permute3 (jy + 0, jy + i1y, jy + 1)))
                 (0, i1x, 1));
          m0 = v3map (\<lambda>c. max (1 / 2 - c) 0)
                 (x0x * x0x + x0y * x0y, x12x * x12x + x12y * x12y, x12z * x12z + x12w * x12w);
          m1 = v3zip (*) m0 m0;
          m2 = v3zip (*) m1 m1;
          x = v3map (\<lambda>c. 2 * fract (c * Cw) - 1) p;
          h = v3map (\<lambda>c. \<bar>c\<bar> - 1 / 2) x;
          ox = v3map (\<lambda>c. floor_f (c + 1 / 2)) x;
          a0 = v3zip (-) x ox;
          m3 = v3zip (*) m2
                 (v3map (\<lambda>c. 179284291400159 / 10 ^ 14 - 85373472095314 / 10 ^ 14 * c)
                    (v3zip (+) (v3zip (*) a0 a0) (v3zip (*) h h)));
          g = (case (a0, h) of ((a0x, a0y, a0z), (hx, hy, hz)) \<Rightarrow>
                 (a0x * x0x + hx * x0y, a0y * x12x + hy * x12y, a0z * x12z + hz * x12w))
      in 130 * dot3 m3 g)"

text \<open>The loop \<^verbatim>\<open>for (var i = 0; i < octaves; i++)\<close> over the state
  \<open>(value, amplitude, frequency)\<close>; \<open>gain\<close> is what the amplitude is multiplied by.\<close>

fun fbm_loop :: "nat \<Rightarrow> vec2f \<Rightarrow> real \<Rightarrow> real \<times> real \<times> real \<Rightarrow> real \<times> real \<times> real" where
  "fbm_loop 0 pos gain st = st"
| "fbm_loop (Suc n) pos gain (val, amplitude, frequency) =
     fbm_loop n pos gain
       (val + amplitude * simplex_noise_2d (v2scale pos frequency), amplitude * gain, frequency * 2)"

definition fbm :: "vec2f \<Rightarrow> i32 \<Rightarrow> real" where
  "fbm p octs = fst (fbm_loop (nat (sint octs)) p (1 / 2) (0, 1 / 2, 1))"

definition domain_warp :: "vec2f \<Rightarrow> real \<Rightarrow> vec2f" where
  "domain_warp p warp =
     (let offset = (fbm (v2add p (0, 0)) 3, fbm (v2add p (52 / 10, 13 / 10)) 3)
      in v2add p (v2scale offset warp))"

record ComputeParams =
  cp_chunk_offset :: vec2f
  cp_terrain_scale :: real
  cp_height_scale :: real
  cp_octaves :: u32
  cp_warp_strength :: real
  cp_height_variance :: real
  cp_roughness :: real
  cp_pattern_type :: u32
  cp_seed :: u32
  cp_pad0 :: real
  cp_pad1 :: real

definition fbm_rough :: "vec2f \<Rightarrow> i32 \<Rightarrow> real \<Rightarrow> real" where
  "fbm_rough p octs rough = fst (fbm_loop (nat (sint octs)) p rough (0, 1 / 2, 1))"

definition smoothstep :: "real \<Rightarrow> real \<Rightarrow> real \<Rightarrow> real" where
  "smoothstep edge0 edge1 x =
     (let t = max 0 (min 1 ((x - edge0) / (edge1 - edge0))) in t * t * (3 - 2 * t))"

text \<open>\<^verbatim>\<open>pow(x, y)\<close> of WGSL is \<^verbatim>\<open>exp2(y * log2(x))\<close>: no finite result for a negative
  base, and for a zero base only with a positive exponent.\<close>

definition wgsl_pow :: "real \<Rightarrow> real \<Rightarrow> real option" where
  "wgsl_pow x y = (if 0 < x then Some (x powr y) else if x = 0 \<and> 0 < y then Some 0 else None)"

definition div_finite :: "real \<Rightarrow> real \<Rightarrow> real option" where
  "div_finite x y = (if y = 0 then None else Some (x / y))"

definition i32_max :: "i32 \<Rightarrow> i32 \<Rightarrow> i32" where
  "i32_max a b = (if sint a < sint b then b else a)"

text \<open>The sampling position \<^verbatim>\<open>noise_pos\<close> of the invocation \<open>(id.x, id.y)\<close>.\<close>

definition noise_pos :: "ComputeParams \<Rightarrow> u32 \<times> u32 \<Rightarrow> vec2f" where
  "noise_pos cp gid =
     (let local_uv = (real (unat (fst gid)) / real (unat (CHUNK_SIZE - 1)),
                      real (unat (snd gid)) / real (unat (CHUNK_SIZE - 1)));
          world_pos = v2add (cp_chunk_offset cp) (v2scale local_uv CHUNK_WORLD_SIZE);
          seed_offset = (real (unat (cp_seed cp)) * (1 / 10), real (unat (cp_seed cp)) * (137 / 1000))
      in v2scale (v2add world_pos seed_offset) (cp_terrain_scale cp))"

text \<open>The two locals of \<^verbatim>\<open>case 4u\<close> that fix the quantisation.\<close>

definition terrace_count :: "ComputeParams \<Rightarrow> real" where
  "terrace_count cp = 6 + cp_height_variance cp * 6"

definition step_size :: "ComputeParams \<Rightarrow> real option" where
  "step_size cp = div_finite (cp_height_scale cp) (terrace_count cp)"

text \<open>The value of \<^verbatim>\<open>height\<close> after the \<^verbatim>\<open>switch\<close> on \<^verbatim>\<open>pattern_type\<close>.\<close>

text \<open>Locals are named as in the shader, except \<open>octs\<close>, \<open>rough\<close> and \<open>warp\<close> for
  \<^verbatim>\<open>octaves\<close>, \<^verbatim>\<open>roughness\<close> and \<^verbatim>\<open>warp_strength\<close>.\<close>

definition pattern_height :: "ComputeParams \<Rightarrow> u32 \<times> u32 \<Rightarrow> real option" where
  "pattern_height cp gid =
     (let np = noise_pos cp gid;
          octs = cp_octaves cp;
          rough = cp_roughness cp;
          variance = cp_height_variance cp;
          hs = cp_height_scale cp;
          pt = cp_pattern_type cp
      in
      if pt = 0 then
        (let warped_pos = domain_warp (v2scale np (1 / 2)) (cp_warp_strength cp);
             h0 = fbm_rough (v2scale warped_pos (3 / 10)) octs rough * hs;
             detail_octaves = i32_max (octs - 2) 2;
             h1 = h0 + fbm_rough (v2scale np 2) detail_octaves rough * hs * (15 / 100) * variance;
             ridge = 1 - \<bar>fbm_rough (v2scale np (8 / 10)) detail_octaves rough\<bar>
         in Some (h1 + ridge * ridge * hs * (3 / 10) * variance))
      else if pt = 1 then
        (let warped_pos = domain_warp (v2scale np (1 / 2)) (cp_warp_strength cp * (15 / 10));
             h0 = fbm_rough (v2scale warped_pos (2 / 10)) octs rough * hs * (3 / 10);
             ridge1 = 1 - \<bar>fbm_rough (v2scale warped_pos (6 / 10)) octs rough\<bar>;
             ridge2 = 1 - \<bar>fbm_rough (v2scale warped_pos 1) (octs - 1) rough\<bar>
         in
         case (wgsl_pow ridge1 (25 / 10), wgsl_pow ridge2 2) of
           (Some r1, Some r2) \<Rightarrow>
             Some (h0 + r1 * hs * (6 / 10) * variance + r2 * hs * (3 / 10) * variance
                   + fbm_rough (v2scale np 3) 4 rough * hs * (8 / 100))
         | _ \<Rightarrow> None)
      else if pt = 2 then
        (let warped_pos = domain_warp (v2scale np (1 / 2)) (cp_warp_strength cp);
             base_height = fbm_rough (v2scale warped_pos (3 / 10)) octs rough;
             island_noise = fbm_rough (v2scale np (15 / 100)) 4 (1 / 2);
             island_mask = smoothstep (- (1 / 10)) (3 / 10) island_noise;
             h0 = (base_height * island_mask - 3 / 10) * hs
         in Some (h0 + fbm_rough (v2scale np 2) 4 rough * hs * (1 / 10) * variance * island_mask))
      else if pt = 3 then
        (let warped_pos = domain_warp (v2scale np (1 / 2)) (cp_warp_strength cp);
             h0 = fbm_rough (v2scale warped_pos (3 / 10)) octs rough * hs * (1 / 2);
             valley1 = \<bar>fbm_rough (v2scale warped_pos (1 / 2)) (octs - 1) rough\<bar>;
             valley2 = \<bar>fbm_rough (v2add (v2scale warped_pos (8 / 10)) (100, 100)) (octs - 2) rough\<bar>
         in
         case (wgsl_pow (1 - valley1) 3, wgsl_pow (1 - valley2) 2) of
           (Some c1, Some c2) \<Rightarrow>
             Some (h0 - c1 * hs * (6 / 10) * variance - c2 * hs * (3 / 10) * variance
                   + fbm_rough (v2scale np 3) 3 rough * hs * (5 / 100))
         | _ \<Rightarrow> None)
      else if pt = 4 then
        (let warped_pos = domain_warp (v2scale np (1 / 2)) (cp_warp_strength cp);
             raw_height = fbm_rough (v2scale warped_pos (3 / 10)) octs rough * hs
         in
         case step_size cp of
           None \<Rightarrow> None
         | Some step \<Rightarrow>
             (case div_finite raw_height step of
                None \<Rightarrow> None
              | Some q \<Rightarrow>
                  Some (floor_f (q + 1 / 2) * step
                        + fbm_rough (v2scale np 4) 3 rough * step * (2 / 10))))
      else if pt = 5 then
        (let blocky_offset = (1000000, 1337000);
             blocky_pos = v2add np blocky_offset;
             warped_pos = domain_warp (v2scale blocky_pos (1 / 2)) (cp_warp_strength cp);
             h0 = fbm_rough (v2scale warped_pos (3 / 10)) octs rough * hs;
             detail_octaves = i32_max (octs - 2) 2;
             h1 = h0 + fbm_rough (v2scale blocky_pos 2) detail_octaves rough * hs * (15 / 100) * variance;
             ridge = 1 - \<bar>fbm_rough (v2scale blocky_pos (8 / 10)) detail_octaves rough\<bar>
         in Some (h1 + ridge * ridge * hs * (3 / 10) * variance))
      else
        (let warped_pos = domain_warp (v2scale np (1 / 2)) (cp_warp_strength cp)
         in Some (fbm_rough (v2scale warped_pos (3 / 10)) octs rough * hs)))"


definition example_params :: ComputeParams where
  "example_params =
     \<lparr>cp_chunk_offset = (0, 0), cp_terrain_scale = 1 / 100, cp_height_scale = 100,
      cp_octaves = 6, cp_warp_strength = 10, cp_height_variance = 1 / 2, cp_roughness = 1 / 2,
      cp_pattern_type = 4, cp_seed = 1, cp_pad0 = 0, cp_pad1 = 0\<rparr>"

section \<open>Particle kernel (the particle shader in src/web/utils.ts)\<close>

text \<open>
  The respawn test of the particle kernel is about values that are not numbers, so here
  an \<^verbatim>\<open>f32\<close> is a finite real, one of the two infinities, or \<^verbatim>\<open>NaN\<close>.  Arithmetic on
  finite values is exact (rounding and overflow are not modelled, and the two zeros are
  one); on the special values it follows IEEE 754.
\<close>

datatype f32 = Fin real | PInf | NInf | NaN

fun f_neg :: "f32 \<Rightarrow> f32" where
  "f_neg (Fin a) = Fin (- a)"
| "f_neg PInf = NInf"
| "f_neg NInf = PInf"
| "f_neg NaN = NaN"

fun f_add :: "f32 \<Rightarrow> f32 \<Rightarrow> f32" where
  "f_add (Fin a) (Fin b) = Fin (a + b)"
| "f_add NaN y = NaN"
| "f_add x NaN = NaN"
| "f_add PInf NInf = NaN"
| "f_add NInf PInf = NaN"
| "f_add PInf y = PInf"
| "f_add x PInf = PInf"
| "f_add NInf y = NInf"
| "f_add x NInf = NInf"

definition f_sub :: "f32 \<Rightarrow> f32 \<Rightarrow> f32" where
  "f_sub x y = f_add x (f_neg y)"

text \<open>Sign of a value that is not \<^verbatim>\<open>NaN\<close>: \<open>1\<close>, \<open>0\<close> or \<open>-1\<close>.\<close>

fun f_sign :: "f32 \<Rightarrow> int" where
  "f_sign (Fin a) = (if a = 0 then 0 else if 0 < a then 1 else - 1)"
| "f_sign PInf = 1"
| "f_sign NInf = - 1"
| "f_sign NaN = 0"

fun f_mul :: "f32 \<Rightarrow> f32 \<Rightarrow> f32" where
  "f_mul (Fin a) (Fin b) = Fin (a * b)"
| "f_mul NaN y = NaN"
| "f_mul x NaN = NaN"
| "f_mul x y =
     (if f_sign x * f_sign y = 0 then NaN else if f_sign x * f_sign y = 1 then PInf else NInf)"

fun f_div :: "f32 \<Rightarrow> f32 \<Rightarrow> f32" where
  "f_div (Fin a) (Fin b) =
     (if b \<noteq> 0 then Fin (a / b) else if a = 0 then NaN else if 0 < a then PInf else NInf)"
| "f_div NaN y = NaN"
| "f_div x NaN = NaN"
| "f_div (Fin a) y = Fin 0"
| "f_div x (Fin b) = (if f_sign x * (if b < 0 then - 1 else 1) = 1 then PInf else NInf)"
| "f_div x y = NaN"

fun f_floor :: "f32 \<Rightarrow> f32" where
  "f_floor (Fin a) = Fin (of_int \<lfloor>a\<rfloor>)"
| "f_floor x = x"

definition f_fract :: "f32 \<Rightarrow> f32" where
  "f_fract x = f_sub x (f_floor x)"

fun f_sqrt :: "f32 \<Rightarrow> f32" where
  "f_sqrt (Fin a) = (if a < 0 then NaN else Fin (sqrt a))"
| "f_sqrt PInf = PInf"
| "f_sqrt x = NaN"

fun f_cos :: "f32 \<Rightarrow> f32" where
  "f_cos (Fin a) = Fin (cos a)"
| "f_cos x = NaN"

fun f_sin :: "f32 \<Rightarrow> f32" where
  "f_sin (Fin a) = Fin (sin a)"
| "f_sin x = NaN"

text \<open>Comparisons: every ordered comparison with \<^verbatim>\<open>NaN\<close> is false, and \<^verbatim>\<open>!=\<close> with
  \<^verbatim>\<open>NaN\<close> is true.\<close>

fun f_lt :: "f32 \<Rightarrow> f32 \<Rightarrow> bool" where
  "f_lt (Fin a) (Fin b) = (a < b)"
| "f_lt NaN y = False"
| "f_lt x NaN = False"
| "f_lt x NInf = False"
| "f_lt PInf y = False"
| "f_lt x y = True"

definition f_gt :: "f32 \<Rightarrow> f32 \<Rightarrow> bool" where
  "f_gt x y = f_lt y x"

definition f_le :: "f32 \<Rightarrow> f32 \<Rightarrow> bool" where
  "f_le x y = (x \<noteq> NaN \<and> y \<noteq> NaN \<and> \<not> f_lt y x)"

definition f_ne :: "f32 \<Rightarrow> f32 \<Rightarrow> bool" where
  "f_ne x y = (x = NaN \<or> y = NaN \<or> x \<noteq> y)"

type_synonym fvec2 = "f32 \<times> f32"
type_synonym fvec3 = "f32 \<times> f32 \<times> f32"

definition fv3_add :: "fvec3 \<Rightarrow> fvec3 \<Rightarrow> fvec3" where
  "fv3_add v w = (case (v, w) of ((a, b, c), (d, e, g)) \<Rightarrow> (f_add a d, f_add b e, f_add c g))"

definition fv3_scale :: "fvec3 \<Rightarrow> f32 \<Rightarrow> fvec3" where
  "fv3_scale v k = (case v of (a, b, c) \<Rightarrow> (f_mul a k, f_mul b k, f_mul c k))"

definition fv3_dot :: "fvec3 \<Rightarrow> fvec3 \<Rightarrow> f32" where
  "fv3_dot v w =
     (case (v, w) of ((a, b, c), (d, e, g)) \<Rightarrow> f_add (f_add (f_mul a d) (f_mul b e)) (f_mul c g))"

definition fv2_length :: "fvec2 \<Rightarrow> f32" where
  "fv2_length v = (case v of (a, b) \<Rightarrow> f_sqrt (f_add (f_mul a a) (f_mul b b)))"

record Particle =
  position :: fvec3
  velocity :: fvec3
  life :: f32
  p_size :: f32

record SimParams =
  sim_delta_time :: f32
  sim_time :: f32
  sim_camera_pos :: fvec3
  sim_wind_x :: f32
  sim_wind_z :: f32
  sim_spawn_height :: f32
  sim_spawn_radius :: f32
  sim_despawn_height :: f32
  sim_particle_type :: u32
  sim_speed :: f32
  sim_particle_count :: u32
  sim_padding :: f32

definition hash :: "fvec3 \<Rightarrow> f32" where
  "hash p =
     (let p3 = (case fv3_scale p (Fin (1031 / 10000)) of (a, b, c) \<Rightarrow> (f_fract a, f_fract b, f_fract c));
          d = (case p3 of (x, y, z) \<Rightarrow>
                 fv3_dot p3 (f_add y (Fin (3333 / 100)), f_add z (Fin (3333 / 100)),
                             f_add x (Fin (3333 / 100))))
      in case p3 of (x, y, z) \<Rightarrow>
           f_fract (f_mul (f_add (f_add x d) (f_add y d)) (f_add z d)))"

definition hash2 :: "fvec2 \<Rightarrow> fvec2" where
  "hash2 p =
     (let kx = Fin (3183099 / 10 ^ 7); ky = Fin (3678794 / 10 ^ 7);
          p2x = f_add (f_mul (fst p) kx) ky;
          p2y = f_add (f_mul (snd p) ky) kx;
          f = f_fract (f_mul (f_mul p2x p2y) (f_add p2x p2y))
      in (f_fract (f_mul (f_mul (Fin 16) kx) f), f_fract (f_mul (f_mul (Fin 16) ky) f)))"

text \<open>The first two statements on \<^verbatim>\<open>p\<close>: the position moves by \<open>velocity * delta_time\<close>
  and the life drops by \<open>delta_time\<close>.\<close>

definition integrate :: "SimParams \<Rightarrow> Particle \<Rightarrow> Particle" where
  "integrate sim p =
     p\<lparr>position := fv3_add (position p) (fv3_scale (velocity p) (sim_delta_time sim)),
       life := f_sub (life p) (sim_delta_time sim)\<rparr>"

definition horizontal_dist :: "SimParams \<Rightarrow> Particle \<Rightarrow> f32" where
  "horizontal_dist sim p =
     (case (position p, sim_camera_pos sim) of ((px, py, pz), (cx, cy, cz)) \<Rightarrow>
        fv2_length (f_sub px cx, f_sub pz cz))"

definition has_nan :: "Particle \<Rightarrow> bool" where
  "has_nan p =
     (case (position p, velocity p) of ((px, py, pz), (vx, vy, vz)) \<Rightarrow>
        f_ne px px \<or> f_ne py py \<or> f_ne pz pz \<or> f_ne vx vx \<or> f_ne vy vy \<or> f_ne vz vz)"

definition needs_respawn :: "SimParams \<Rightarrow> Particle \<Rightarrow> bool" where
  "needs_respawn sim p =
     (f_le (life p) (Fin 0) \<or>
      f_lt (fst (snd (position p))) (sim_despawn_height sim) \<or>
      f_gt (horizontal_dist sim p) (f_mul (sim_spawn_radius sim) (Fin (15 / 10))) \<or>
      has_nan p)"

definition stable_time :: "SimParams \<Rightarrow> f32" where
  "stable_time sim =
     f_sub (sim_time sim) (f_mul (f_floor (f_div (sim_time sim) (Fin 1000))) (Fin 1000))"

text \<open>The three random numbers of a respawn, from the index and the wrapped time.\<close>

definition respawn_rands :: "SimParams \<Rightarrow> nat \<Rightarrow> f32 \<times> f32 \<times> f32" where
  "respawn_rands sim idx =
     (let sd = (Fin (real idx), stable_time sim, f_mul (Fin (real idx)) (Fin (7 / 10)))
      in (hash sd, hash (fv3_add sd (Fin 1, Fin 2, Fin 3)), hash (fv3_add sd (Fin 4, Fin 5, Fin 6))))"

text \<open>The branch \<^verbatim>\<open>if (needs_respawn)\<close>.\<close>

definition respawn :: "SimParams \<Rightarrow> nat \<Rightarrow> Particle \<Rightarrow> Particle" where
  "respawn sim idx p =
     (case (respawn_rands sim idx, sim_camera_pos sim) of ((rand1, rand2, rand3), (cx, cy, cz)) \<Rightarrow>
        let angle = f_mul rand1 (Fin (628318 / 100000));
            dist = f_mul (f_sqrt rand2) (sim_spawn_radius sim);
            pos = (f_add cx (f_mul (f_cos angle) dist),
                   f_add cy (f_mul (sim_spawn_height sim) rand3),
                   f_add cz (f_mul (f_sin angle) dist));
            vel = (if sim_particle_type sim = 0 then
                     (f_mul (sim_wind_x sim) (Fin (1 / 2)),
                      f_neg (sim_speed sim),
                      f_mul (sim_wind_z sim) (Fin (1 / 2)))
                   else
                     (let drift = hash2 (f_add (Fin (real idx)) (sim_time sim), rand1) in
                      (f_add (f_mul (sim_wind_x sim) (Fin (3 / 10)))
                         (f_mul (f_sub (fst drift) (Fin (1 / 2))) (Fin 2)),
                       f_mul (f_neg (sim_speed sim)) (Fin (3 / 10)),
                       f_add (f_mul (sim_wind_z sim) (Fin (3 / 10)))
                         (f_mul (f_sub (snd drift) (Fin (1 / 2))) (Fin 2)))))
        in p\<lparr>position := pos, velocity := vel, life := f_add (Fin 3) (f_mul rand3 (Fin 5))\<rparr>)"

text \<open>The \<^verbatim>\<open>else\<close> branch: wind acceleration, and damping for snow.\<close>

definition apply_physics :: "SimParams \<Rightarrow> Particle \<Rightarrow> Particle" where
  "apply_physics sim p =
     (case velocity p of (vx, vy, vz) \<Rightarrow>
        if sim_particle_type sim = 0 then
          p\<lparr>velocity :=
              (f_add vx (f_mul (f_mul (sim_wind_x sim) (sim_delta_time sim)) (Fin (1 / 10))),
               vy,
               f_add vz (f_mul (f_mul (sim_wind_z sim) (sim_delta_time sim)) (Fin (1 / 10))))\<rparr>
        else
          p\<lparr>velocity :=
              (f_mul (f_add vx (f_mul (f_mul (sim_wind_x sim) (sim_delta_time sim)) (Fin (5 / 100))))
                 (Fin (995 / 1000)),
               vy,
               f_mul (f_add vz (f_mul (f_mul (sim_wind_z sim) (sim_delta_time sim)) (Fin (5 / 100))))
                 (Fin (995 / 1000)))\<rparr>)"

text \<open>
  One invocation of \<^verbatim>\<open>simulate\<close> with \<open>global_id.x = idx\<close>, given the whole input
  buffer.  \<open>None\<close>: nothing is written to \<^verbatim>\<open>particles_out[idx]\<close> (the early return for an
  index at or past \<open>particle_count\<close>; an index past the end of the buffer is outside the
  model and is treated the same way).
\<close>

definition simulate :: "SimParams \<Rightarrow> Particle list \<Rightarrow> nat \<Rightarrow> Particle option" where
  "simulate sim particles_in idx =
     (if idx \<ge> unat (sim_particle_count sim) \<or> idx \<ge> length particles_in then None
      else
        (let p = integrate sim (particles_in ! idx) in
         Some (if needs_respawn sim p then respawn sim idx p else apply_physics sim p)))"

text \<open>A dispatch: every invocation runs on the same input buffer and writes its own
  element of the output buffer; an element no invocation writes keeps its old value.\<close>

definition simulate_all :: "SimParams \<Rightarrow> Particle list \<Rightarrow> Particle list \<Rightarrow> Particle list" where
  "simulate_all sim particles_in particles_out =
     map (\<lambda>i. case simulate sim particles_in i of Some p \<Rightarrow> p | None \<Rightarrow> particles_out ! i)
       [0..<length particles_out]"

text \<open>Invocation \<open>idx\<close> of a dispatch takes the respawn branch.\<close>

definition respawns_at :: "SimParams \<Rightarrow> Particle list \<Rightarrow> nat \<Rightarrow> bool" where
  "respawns_at sim particles_in idx =
     (idx < unat (sim_particle_count sim) \<and> idx < length particles_in \<and>
      needs_respawn sim (integrate sim (particles_in ! idx)))"



text \<open>The respawn test in the words of the specification: the fourth disjunct holds when a
  position or velocity component is not finite.\<close>

definition finite_f32 :: "f32 \<Rightarrow> bool" where
  "finite_f32 x = (case x of Fin a \<Rightarrow> True | _ \<Rightarrow> False)"

definition spec_needs_respawn :: "SimParams \<Rightarrow> Particle \<Rightarrow> bool" where
  "spec_needs_respawn sim p =
     (case (position p, velocity p) of ((px, py, pz), (vx, vy, vz)) \<Rightarrow>
        f_le (life p) (Fin 0) \<or>
        f_lt py (sim_despawn_height sim) \<or>
        f_gt (horizontal_dist sim p) (f_mul (sim_spawn_radius sim) (Fin (15 / 10))) \<or>
        \<not> (finite_f32 px \<and> finite_f32 py \<and> finite_f32 pz \<and>
           finite_f32 vx \<and> finite_f32 vy \<and> finite_f32 vz))"

definition example_sim :: SimParams where
  "example_sim =
     \<lparr>sim_delta_time = Fin 1, sim_time = Fin 0, sim_camera_pos = (Fin 0, Fin 0, Fin 0),
      sim_wind_x = Fin 0, sim_wind_z = Fin 0, sim_spawn_height = Fin 50, sim_spawn_radius = Fin 100,
      sim_despawn_height = Fin (- 20), sim_particle_type = 0, sim_speed = Fin 30,
      sim_particle_count = 1, sim_padding = Fin 0\<rparr>"

definition example_particle :: Particle where
  "example_particle =
     \<lparr>position = (Fin 0, Fin 10, Fin 0), velocity = (Fin 0, Fin 0, Fin 0), life = Fin 5,
      p_size = Fin 1\<rparr>"

section \<open>Hex colour round trip\<close>

lemma hex_val_hex_digit: "d < 16 \<Longrightarrow> hex_val (hex_digit d) = Some d"
proof -
  assume "d < 16"
  then have "d = 0 \<or> d = 1 \<or> d = 2 \<or> d = 3 \<or> d = 4 \<or> d = 5 \<or> d = 6 \<or> d = 7 \<or>
             d = 8 \<or> d = 9 \<or> d = 10 \<or> d = 11 \<or> d = 12 \<or> d = 13 \<or> d = 14 \<or> d = 15"
    by arith
  then show ?thesis
    by (elim disjE) (simp_all add: hex_val_def hex_digit_def upt_rec)
qed

lemma toString16_byte:
  assumes "0 \<le> n" "n \<le> 255"
  shows "padStart 2 CHR ''0'' (toString16 n) = [hex_digit (nat n div 16), hex_digit (nat n mod 16)]"
proof (cases "nat n < 16")
  case True
  then show ?thesis using assms
    by (simp add: padStart_def toString16_def hex_digit_def)
next
  case False
  moreover from assms have "nat n div 16 < 16" by linarith
  ultimately show ?thesis using assms
    by (simp add: padStart_def toString16_def)
qed

lemma parseHex2_byte:
  assumes "m < 256"
  shows "parseHex2 (hex_digit (m div 16)) (hex_digit (m mod 16)) = Some m"
proof -
  from assms have "m div 16 < 16" by linarith
  then show ?thesis
    by (simp add: parseHex2_def hex_val_hex_digit)
qed

lemma Math_round_byte:
  assumes "0 \<le> c" "c \<le> 1"
  shows "0 \<le> Math_round (c * 255)" "Math_round (c * 255) \<le> 255"
  using assms unfolding Math_round_def by linarith+

lemma Math_round_close: "\<bar>real_of_int (Math_round x) - x\<bar> \<le> 1 / 2"
  unfolding Math_round_def by linarith

lemma toHex_unit:
  assumes "0 \<le> c" "c \<le> 1"
  shows "toHex c = [hex_digit (nat (Math_round (c * 255)) div 16),
                    hex_digit (nat (Math_round (c * 255)) mod 16)]"
  unfolding toHex_def using Math_round_byte [OF assms] by (rule toString16_byte)

lemma hexToRgb_rgbToHex:
  assumes "0 \<le> r" "r \<le> 1" "0 \<le> g" "g \<le> 1" "0 \<le> b" "b \<le> 1"
  shows "hexToRgb (rgbToHex r g b) =
           (real_of_int (Math_round (r * 255)) / 255,
            real_of_int (Math_round (g * 255)) / 255,
            real_of_int (Math_round (b * 255)) / 255)"
proof -
  have byte: "nat (Math_round (c * 255)) < 256" if "0 \<le> c" "c \<le> 1" for c
    using Math_round_byte [OF that] by linarith
  have rn: "real (nat (Math_round (c * 255))) = real_of_int (Math_round (c * 255))"
    if "0 \<le> c" "c \<le> 1" for c
    using Math_round_byte [OF that] by simp
  show ?thesis
    using assms
    by (simp add: hexToRgb_def hex_groups_def rgbToHex_def toHex_unit parseHex2_byte byte rn)
qed

lemma quantised_close:
  "\<bar>real_of_int (Math_round (c * 255)) / 255 - c\<bar> < COLOR_EPSILON"
proof -
  have "\<bar>real_of_int (Math_round (c * 255)) - c * 255\<bar> \<le> 1 / 2"
    by (rule Math_round_close)
  then have "\<bar>real_of_int (Math_round (c * 255)) / 255 - c\<bar> \<le> 1 / 510"
    by (simp add: field_simps abs_le_iff)
  then show ?thesis by (simp add: COLOR_EPSILON_def)
qed

text \<open>
  C10.  An RGB triple with every component in \<open>[0, 1]\<close>, written to a hex colour string
  by \<open>rgbToHex\<close> and read back by \<open>hexToRgb\<close>, comes back with every component changed
  by less than \<open>COLOR_EPSILON\<close>: \<open>colorsEqual\<close> still holds between the result and the
  original triple.
\<close>

theorem hex_round_trip_colorsEqual:
  assumes "0 \<le> r" "r \<le> 1" "0 \<le> g" "g \<le> 1" "0 \<le> b" "b \<le> 1"
  shows "colorsEqual (hexToRgb (rgbToHex r g b)) (r, g, b)"
  using assms by (simp add: hexToRgb_rgbToHex colorsEqual_def quantised_close)

theorem hex_round_trip_colorsEqual_witness:
  "colorsEqual (hexToRgb (rgbToHex (1 / 2) (1 / 5) 1)) (1 / 2, 1 / 5, 1)"
  using hex_round_trip_colorsEqual [of "1 / 2" "1 / 5" 1] by simp

section \<open>Slider round trip\<close>

lemma SLIDER_CONFIGS_sound:
  assumes "SLIDER_CONFIGS sid = Some cfg"
  shows "min_v cfg < max_v cfg" "0 < exponent cfg"
proof -
  from assms have "(sid, cfg) \<in> set
     [(''terrain-scale'', \<lparr>min_v = 5 / 10000, max_v = 5 / 100, exponent = 3, decimals = 4\<rparr>),
      (''warp-strength'', \<lparr>min_v = 0, max_v = 100, exponent = 2, decimals = 0\<rparr>),
      (''roughness'', \<lparr>min_v = 1 / 10, max_v = 9 / 10, exponent = 3 / 2, decimals = 2\<rparr>)]"
    unfolding SLIDER_CONFIGS_def by (rule map_of_SomeD)
  then show "min_v cfg < max_v cfg" "0 < exponent cfg" by auto
qed

lemma Math_pow_unit:
  assumes "0 \<le> n" "0 < e"
  shows "Math_pow n e = Some (n powr e)"
  using assms by (auto simp: Math_pow_def)

lemma powr_unit_range:
  assumes "0 \<le> n" "n \<le> 1" "0 < (e::real)"
  shows "0 \<le> n powr e" "n powr e \<le> 1"
proof -
  show "0 \<le> n powr e" by simp
  have "n powr e \<le> 1 powr e" using assms by (intro powr_mono2) auto
  then show "n powr e \<le> 1" by simp
qed

lemma powr_undo:
  assumes "0 \<le> n" "0 < (e::real)"
  shows "(n powr e) powr (1 / e) = n" "(n powr (1 / e)) powr e = n"
  using assms by (simp_all add: powr_powr)

lemma curve_round_trip:
  fixes lo hi e x :: real
  assumes "lo < hi" "0 < e" "lo \<le> x" "x \<le> hi"
  defines "n \<equiv> (x - lo) / (hi - lo)"
  shows "0 \<le> n" "n \<le> 1" "lo + n * (hi - lo) = x"
  using assms by (simp_all add: field_simps)

lemma sliderToValue_known:
  assumes "SLIDER_CONFIGS sid = Some cfg"
  shows "sliderToValue sid v =
           map_option (\<lambda>curved. min_v cfg + curved * (max_v cfg - min_v cfg))
             (Math_pow ((v - min_v cfg) / (max_v cfg - min_v cfg)) (exponent cfg))"
  using assms by (simp add: sliderToValue_def Let_def split: option.splits)

lemma valueToSlider_known:
  assumes "SLIDER_CONFIGS sid = Some cfg"
  shows "valueToSlider sid v =
           map_option (\<lambda>uncurved. min_v cfg + uncurved * (max_v cfg - min_v cfg))
             (Math_pow ((max (min_v cfg) (min (max_v cfg) v) - min_v cfg) / (max_v cfg - min_v cfg))
                (1 / exponent cfg))"
  using assms by (simp add: valueToSlider_def Let_def split: option.splits)

lemma scaled_in_range:
  fixes a b c :: real
  assumes "a < b" "0 \<le> c" "c \<le> 1"
  shows "max a (min b (a + c * (b - a))) = a + c * (b - a)" "(a + c * (b - a) - a) / (b - a) = c"
proof -
  have "c * (b - a) \<le> 1 * (b - a)" using assms by (intro mult_right_mono) simp_all
  moreover have "0 \<le> c * (b - a)" using assms by simp
  ultimately show "max a (min b (a + c * (b - a))) = a + c * (b - a)" by simp
  show "(a + c * (b - a) - a) / (b - a) = c" using assms by simp
qed

lemma forward_then_inverse:
  assumes cfg: "SLIDER_CONFIGS sid = Some cfg" and lo: "min_v cfg \<le> x" and hi: "x \<le> max_v cfg"
  shows "Option.bind (sliderToValue sid x) (valueToSlider sid) = Some x"
proof -
  let ?a = "min_v cfg" and ?b = "max_v cfg" and ?e = "exponent cfg"
  let ?n = "(x - ?a) / (?b - ?a)"
  let ?c = "?n powr ?e"
  have ab: "?a < ?b" and e: "0 < ?e" and e': "0 < 1 / ?e"
    using SLIDER_CONFIGS_sound [OF cfg] by simp_all
  have n: "0 \<le> ?n" "?n \<le> 1" and rt: "?a + ?n * (?b - ?a) = x"
    using curve_round_trip [OF ab e lo hi] by simp_all
  have c: "0 \<le> ?c" "?c \<le> 1" using powr_unit_range [OF n e] by simp_all
  have fwd: "sliderToValue sid x = Some (?a + ?c * (?b - ?a))"
    by (simp only: sliderToValue_known [OF cfg] Math_pow_unit [OF n(1) e] option.map)
  have "valueToSlider sid (?a + ?c * (?b - ?a)) = Some (?a + (?c powr (1 / ?e)) * (?b - ?a))"
    by (simp only: valueToSlider_known [OF cfg] scaled_in_range [OF ab c]
        Math_pow_unit [OF c(1) e'] option.map)
  also have "?c powr (1 / ?e) = ?n" by (rule powr_undo [OF n(1) e])
  finally show ?thesis by (simp only: fwd bind.bind_lunit rt)
qed

lemma inverse_then_forward:
  assumes cfg: "SLIDER_CONFIGS sid = Some cfg" and lo: "min_v cfg \<le> x" and hi: "x \<le> max_v cfg"
  shows "Option.bind (valueToSlider sid x) (sliderToValue sid) = Some x"
proof -
  let ?a = "min_v cfg" and ?b = "max_v cfg" and ?e = "exponent cfg"
  let ?n = "(x - ?a) / (?b - ?a)"
  let ?u = "?n powr (1 / ?e)"
  have ab: "?a < ?b" and e: "0 < ?e" and e': "0 < 1 / ?e"
    using SLIDER_CONFIGS_sound [OF cfg] by simp_all
  have n: "0 \<le> ?n" "?n \<le> 1" and rt: "?a + ?n * (?b - ?a) = x"
    using curve_round_trip [OF ab e lo hi] by simp_all
  have u: "0 \<le> ?u" "?u \<le> 1" using powr_unit_range [OF n e'] by simp_all
  have clamp: "max ?a (min ?b x) = x" using lo hi by simp
  have inv: "valueToSlider sid x = Some (?a + ?u * (?b - ?a))"
    by (simp only: valueToSlider_known [OF cfg] clamp Math_pow_unit [OF n(1) e'] option.map)
  have "sliderToValue sid (?a + ?u * (?b - ?a)) = Some (?a + (?u powr ?e) * (?b - ?a))"
    by (simp only: sliderToValue_known [OF cfg] scaled_in_range [OF ab u]
        Math_pow_unit [OF u(1) e] option.map)
  also have "?u powr ?e = ?n" by (rule powr_undo [OF n(1) e])
  finally show ?thesis by (simp only: inv bind.bind_lunit rt)
qed

text \<open>
  C1.  For every slider id registered in \<open>SLIDER_CONFIGS\<close> and every \<open>x\<close> between that
  slider's \<open>min\<close> and \<open>max\<close>, \<open>valueToSlider\<close> after \<open>sliderToValue\<close> gives \<open>x\<close> back, and
  so does \<open>sliderToValue\<close> after \<open>valueToSlider\<close>.  Over the reals the round trip is exact,
  so it holds within any tolerance; both intermediate results are finite numbers.
\<close>

theorem slider_round_trip:
  assumes "SLIDER_CONFIGS sid = Some cfg" and "min_v cfg \<le> x" and "x \<le> max_v cfg"
  shows "Option.bind (sliderToValue sid x) (valueToSlider sid) = Some x \<and>
         Option.bind (valueToSlider sid x) (sliderToValue sid) = Some x"
  using forward_then_inverse [OF assms] inverse_then_forward [OF assms] by simp

theorem slider_round_trip_witness:
  "Option.bind (sliderToValue ''roughness'' (1 / 2)) (valueToSlider ''roughness'') = Some (1 / 2) \<and>
   Option.bind (valueToSlider ''roughness'' (1 / 2)) (sliderToValue ''roughness'') = Some (1 / 2)"
  using slider_round_trip [of "''roughness''"
      "\<lparr>min_v = 1 / 10, max_v = 9 / 10, exponent = 3 / 2, decimals = 2\<rparr>" "1 / 2"]
  by (simp add: SLIDER_CONFIGS_def)

section \<open>Change classification\<close>

lemma flag_fold:
  "fold (\<lambda>key changed. if P key then True else changed) ks b = (b \<or> (\<exists>k \<in> set ks. P k))"
  by (induction ks arbitrary: b) auto

lemma categorizeChanges_eq:
  "categorizeChanges cur prev =
     (if \<exists>k \<in> set GENERATION_SETTINGS. \<not> numbersEqual (k cur) (k prev) then generation
      else if \<exists>k \<in> set COLOR_SETTINGS. \<not> colorsEqual (k cur) (k prev) then colors_only
      else none)"
  unfolding categorizeChanges_def Let_def flag_fold by simp

lemma numbersEqual_refl: "numbersEqual a a"
  by (simp add: numbersEqual_def NUMBER_EPSILON_def)

lemma colorsEqual_refl: "colorsEqual a a"
  by (cases a) (simp add: colorsEqual_def COLOR_EPSILON_def)

text \<open>
  C2.  \<open>categorizeChanges\<close> is a total function on pairs of settings records, and:
  two records that agree on every generation field and every colour field (so differ at
  most in \<open>seed\<close>, \<open>ambient\<close>, \<open>fog_start\<close>, \<open>fog_distance\<close>) give \<open>none\<close>; a difference of
  at least \<open>NUMBER_EPSILON\<close> in some generation field gives \<open>generation\<close>, whatever the
  colours are; and when no generation field differs by that much, a colour field that
  fails \<open>colorsEqual\<close> gives \<open>colors_only\<close>.
\<close>

theorem categorizeChanges_classifies:
  "categorizeChanges (s\<lparr>seed := sd, ambient := am, fog_start := fs, fog_distance := fd\<rparr>) s = none \<and>
   ((\<forall>k \<in> set GENERATION_SETTINGS. k cur = k prev) \<and> (\<forall>k \<in> set COLOR_SETTINGS. k cur = k prev)
      \<longrightarrow> categorizeChanges cur prev = none) \<and>
   ((\<exists>k \<in> set GENERATION_SETTINGS. NUMBER_EPSILON \<le> \<bar>k cur - k prev\<bar>)
      \<longrightarrow> categorizeChanges cur prev = generation) \<and>
   ((\<forall>k \<in> set GENERATION_SETTINGS. \<bar>k cur - k prev\<bar> < NUMBER_EPSILON) \<and>
    (\<exists>k \<in> set COLOR_SETTINGS. \<not> colorsEqual (k cur) (k prev))
      \<longrightarrow> categorizeChanges cur prev = colors_only)"
proof (intro conjI impI)
  show "categorizeChanges (s\<lparr>seed := sd, ambient := am, fog_start := fs, fog_distance := fd\<rparr>) s = none"
    by (simp add: categorizeChanges_eq GENERATION_SETTINGS_def COLOR_SETTINGS_def
        numbersEqual_refl colorsEqual_refl)
next
  assume "(\<forall>k \<in> set GENERATION_SETTINGS. k cur = k prev) \<and> (\<forall>k \<in> set COLOR_SETTINGS. k cur = k prev)"
  then have "\<not> (\<exists>k \<in> set GENERATION_SETTINGS. \<not> numbersEqual (k cur) (k prev))"
    and "\<not> (\<exists>k \<in> set COLOR_SETTINGS. \<not> colorsEqual (k cur) (k prev))"
    by (auto simp: numbersEqual_refl colorsEqual_refl)
  then show "categorizeChanges cur prev = none"
    by (simp only: categorizeChanges_eq if_False)
next
  assume "\<exists>k \<in> set GENERATION_SETTINGS. NUMBER_EPSILON \<le> \<bar>k cur - k prev\<bar>"
  then have "\<exists>k \<in> set GENERATION_SETTINGS. \<not> numbersEqual (k cur) (k prev)"
    by (simp add: numbersEqual_def not_less)
  then show "categorizeChanges cur prev = generation"
    by (simp add: categorizeChanges_eq)
next
  assume h: "(\<forall>k \<in> set GENERATION_SETTINGS. \<bar>k cur - k prev\<bar> < NUMBER_EPSILON) \<and>
    (\<exists>k \<in> set COLOR_SETTINGS. \<not> colorsEqual (k cur) (k prev))"
  then have "\<not> (\<exists>k \<in> set GENERATION_SETTINGS. \<not> numbersEqual (k cur) (k prev))"
    by (simp add: numbersEqual_def)
  with h show "categorizeChanges cur prev = colors_only"
    by (simp add: categorizeChanges_eq)
qed

theorem categorizeChanges_classifies_witness:
  "categorizeChanges (example_terrain\<lparr>seed := 99\<rparr>) example_terrain = none \<and>
   categorizeChanges (example_terrain\<lparr>roughness := 1 / 2, color_sand := (1, 1, 1)\<rparr>) example_terrain
     = generation \<and>
   categorizeChanges (example_terrain\<lparr>color_sand := (1, 1, 1)\<rparr>) example_terrain = colors_only"
proof (intro conjI)
  show "categorizeChanges (example_terrain\<lparr>seed := 99\<rparr>) example_terrain = none"
    using categorizeChanges_classifies
      [where cur = "example_terrain\<lparr>seed := 99\<rparr>" and prev = "example_terrain"]
    by (simp add: GENERATION_SETTINGS_def COLOR_SETTINGS_def)
  have "\<exists>k \<in> set GENERATION_SETTINGS.
          NUMBER_EPSILON \<le> \<bar>k (example_terrain\<lparr>roughness := 1 / 2, color_sand := (1, 1, 1)\<rparr>) - k example_terrain\<bar>"
    by (simp add: GENERATION_SETTINGS_def example_terrain_def NUMBER_EPSILON_def)
  then show "categorizeChanges (example_terrain\<lparr>roughness := 1 / 2, color_sand := (1, 1, 1)\<rparr>) example_terrain
     = generation"
    using categorizeChanges_classifies
      [where cur = "example_terrain\<lparr>roughness := 1 / 2, color_sand := (1, 1, 1)\<rparr>"
         and prev = "example_terrain"]
    by blast
  have "(\<forall>k \<in> set GENERATION_SETTINGS. \<bar>k (example_terrain\<lparr>color_sand := (1, 1, 1)\<rparr>) - k example_terrain\<bar> < NUMBER_EPSILON) \<and>
    (\<exists>k \<in> set COLOR_SETTINGS. \<not> colorsEqual (k (example_terrain\<lparr>color_sand := (1, 1, 1)\<rparr>)) (k example_terrain))"
    by (simp add: GENERATION_SETTINGS_def COLOR_SETTINGS_def example_terrain_def NUMBER_EPSILON_def
        colorsEqual_def COLOR_EPSILON_def)
  then show "categorizeChanges (example_terrain\<lparr>color_sand := (1, 1, 1)\<rparr>) example_terrain = colors_only"
    using categorizeChanges_classifies
      [where cur = "example_terrain\<lparr>color_sand := (1, 1, 1)\<rparr>" and prev = "example_terrain"]
    by blast
qed

section \<open>Heightfield kernel: fallback pattern and terraces\<close>






lemma pattern_height_terraced:
  assumes "cp_pattern_type cp = 4" "terrace_count cp \<noteq> 0" "cp_height_scale cp \<noteq> 0"
  shows "pattern_height cp gid =
           Some (floor_f
                   (fbm_rough
                      (v2scale (domain_warp (v2scale (noise_pos cp gid) (1 / 2)) (cp_warp_strength cp))
                         (3 / 10))
                      (cp_octaves cp) (cp_roughness cp) * cp_height_scale cp
                    / (cp_height_scale cp / terrace_count cp) + 1 / 2)
                 * (cp_height_scale cp / terrace_count cp)
                 + fbm_rough (v2scale (noise_pos cp gid) 4) 3 (cp_roughness cp)
                   * (cp_height_scale cp / terrace_count cp) * (2 / 10))"
  using assms by (simp add: pattern_height_def Let_def step_size_def div_finite_def)

text \<open>
  C8 (as amended).  In the terraced pattern (\<open>pattern_type\<close> 4) the height is rounded to a
  multiple of \<open>height_scale / terrace_count\<close>, where \<open>terrace_count = 6 + 6 * height_variance\<close>.
  The number of terrace steps depends on the height variance: a different variance gives
  a different count.  It does not depend on the seed: a different seed gives the same
  count (the seed only moves the sampling position).
\<close>

theorem terrace_count_variance_only:
  "terrace_count (cp\<lparr>cp_seed := s\<rparr>) = terrace_count cp \<and>
   (v \<noteq> cp_height_variance cp \<longrightarrow>
      terrace_count (cp\<lparr>cp_height_variance := v\<rparr>) \<noteq> terrace_count cp) \<and>
   (cp_pattern_type cp = 4 \<and> terrace_count cp \<noteq> 0 \<and> cp_height_scale cp \<noteq> 0 \<longrightarrow>
      pattern_height cp gid =
        Some (floor_f
                (fbm_rough
                   (v2scale (domain_warp (v2scale (noise_pos cp gid) (1 / 2)) (cp_warp_strength cp))
                      (3 / 10))
                   (cp_octaves cp) (cp_roughness cp) * cp_height_scale cp
                 / (cp_height_scale cp / terrace_count cp) + 1 / 2)
              * (cp_height_scale cp / terrace_count cp)
              + fbm_rough (v2scale (noise_pos cp gid) 4) 3 (cp_roughness cp)
                * (cp_height_scale cp / terrace_count cp) * (2 / 10)))"
  by (simp add: terrace_count_def pattern_height_terraced)

theorem terrace_count_variance_only_witness:
  "terrace_count (example_params\<lparr>cp_seed := 2\<rparr>) = terrace_count example_params \<and>
   terrace_count (example_params\<lparr>cp_height_variance := 1\<rparr>) \<noteq> terrace_count example_params \<and>
   pattern_height example_params (0, 0) =
     Some (floor_f
             (fbm_rough
                (v2scale (domain_warp (v2scale (noise_pos example_params (0, 0)) (1 / 2)) 10) (3 / 10))
                6 (1 / 2) * 100 / (100 / 9) + 1 / 2)
           * (100 / 9)
           + fbm_rough (v2scale (noise_pos example_params (0, 0)) 4) 3 (1 / 2) * (100 / 9) * (2 / 10))"
proof -
  have nine: "terrace_count example_params = 9"
    by (simp add: terrace_count_def example_params_def)
  have fields: "cp_pattern_type example_params = 4" "cp_height_scale example_params = 100"
    "cp_height_variance example_params = 1 / 2" "cp_warp_strength example_params = 10"
    "cp_octaves example_params = 6" "cp_roughness example_params = 1 / 2"
    by (simp_all add: example_params_def)
  show ?thesis
    using terrace_count_variance_only [where cp = example_params and s = 2 and v = 1 and gid = "(0, 0)"]
    by (simp add: nine fields)
qed

text \<open>The claim as stated fails: two parameter sets that differ in the seed alone have the
  same number of terrace steps.\<close>

theorem terrace_count_seed_counterexample:
  "cp_seed (example_params\<lparr>cp_seed := 2\<rparr>) \<noteq> cp_seed example_params \<and>
   terrace_count (example_params\<lparr>cp_seed := 2\<rparr>) = terrace_count example_params"
  by (simp add: terrace_count_def example_params_def)

section \<open>Particle kernel: respawn test, respawn guarantee, independence\<close>

lemma f_ne_self: "f_ne x x = (x = NaN)"
  by (simp add: f_ne_def)

lemma has_nan_iff:
  "has_nan p =
     (case (position p, velocity p) of ((px, py, pz), (vx, vy, vz)) \<Rightarrow>
        px = NaN \<or> py = NaN \<or> pz = NaN \<or> vx = NaN \<or> vy = NaN \<or> vz = NaN)"
  by (simp add: has_nan_def f_ne_self split: prod.splits)

lemma simulate_active:
  assumes "idx < unat (sim_particle_count sim)" "idx < length pin"
  shows "simulate sim pin idx =
           Some (if needs_respawn sim (integrate sim (pin ! idx))
                 then respawn sim idx (integrate sim (pin ! idx))
                 else apply_physics sim (integrate sim (pin ! idx)))"
  using assms by (simp add: simulate_def Let_def)

lemma simulate_all_nth:
  assumes "i < length pout"
  shows "simulate_all sim pin pout ! i = (case simulate sim pin i of Some p \<Rightarrow> p | None \<Rightarrow> pout ! i)"
  using assms by (simp add: simulate_all_def split: option.splits)
























text \<open>
  C5 (as amended).  In one step, invocation \<open>idx\<close> takes the respawn branch exactly when the
  index is active and, for the particle after the position update and the life
  decrement: its life is at most 0, or its height is below the despawn height, or its
  horizontal distance from the camera exceeds 1.5 times the spawn radius, or a component
  of its position or velocity is \<^verbatim>\<open>NaN\<close>.  The output of the invocation is the respawned
  particle in that case and the physics update otherwise.
\<close>

theorem respawn_test_checks_nan:
  "(respawns_at sim pin idx \<longleftrightarrow>
      idx < unat (sim_particle_count sim) \<and> idx < length pin \<and>
      (case (position (integrate sim (pin ! idx)), velocity (integrate sim (pin ! idx))) of
         ((px, py, pz), (vx, vy, vz)) \<Rightarrow>
           f_le (life (integrate sim (pin ! idx))) (Fin 0) \<or>
           f_lt py (sim_despawn_height sim) \<or>
           f_gt (horizontal_dist sim (integrate sim (pin ! idx)))
             (f_mul (sim_spawn_radius sim) (Fin (15 / 10))) \<or>
           px = NaN \<or> py = NaN \<or> pz = NaN \<or> vx = NaN \<or> vy = NaN \<or> vz = NaN)) \<and>
   (idx < unat (sim_particle_count sim) \<and> idx < length pin \<longrightarrow>
      simulate sim pin idx =
        Some (if respawns_at sim pin idx then respawn sim idx (integrate sim (pin ! idx))
              else apply_physics sim (integrate sim (pin ! idx))))"
  by (auto simp: respawns_at_def needs_respawn_def has_nan_iff simulate_active split: prod.splits)

theorem respawn_test_checks_nan_witness:
  "respawns_at example_sim [example_particle\<lparr>velocity := (Fin 0, NaN, Fin 0)\<rparr>] 0 \<and>
   simulate example_sim [example_particle\<lparr>velocity := (Fin 0, NaN, Fin 0)\<rparr>] 0 =
     Some (respawn example_sim 0
             (integrate example_sim (example_particle\<lparr>velocity := (Fin 0, NaN, Fin 0)\<rparr>)))"
proof -
  have a: "(0::nat) < unat (sim_particle_count example_sim)" by (simp add: example_sim_def)
  have v: "velocity (integrate example_sim (example_particle\<lparr>velocity := (Fin 0, NaN, Fin 0)\<rparr>))
             = (Fin 0, NaN, Fin 0)"
    by (simp add: integrate_def)
  have r: "respawns_at example_sim [example_particle\<lparr>velocity := (Fin 0, NaN, Fin 0)\<rparr>] 0"
    using respawn_test_checks_nan
      [of example_sim "[example_particle\<lparr>velocity := (Fin 0, NaN, Fin 0)\<rparr>]" 0] a
    by (simp add: v split: prod.splits)
  then show ?thesis
    using respawn_test_checks_nan
      [of example_sim "[example_particle\<lparr>velocity := (Fin 0, NaN, Fin 0)\<rparr>]" 0] a
    by simp
qed

text \<open>The respawn test is not a test for non-finite components: a particle at height
  \<open>+\<infinity>\<close> is not flagged, while the test in the specification's words flags it.\<close>

theorem respawn_test_infinity_counterexample:
  "\<not> respawns_at example_sim [example_particle\<lparr>position := (Fin 0, PInf, Fin 0)\<rparr>] 0 \<and>
   spec_needs_respawn example_sim
     (integrate example_sim (example_particle\<lparr>position := (Fin 0, PInf, Fin 0)\<rparr>))"
  by (simp add: respawns_at_def needs_respawn_def spec_needs_respawn_def integrate_def
      example_sim_def example_particle_def fv3_add_def fv3_scale_def f_sub_def f_le_def f_gt_def
      horizontal_dist_def fv2_length_def has_nan_def f_ne_def finite_f32_def)

text \<open>
  C9.  One simulation step is noninterfering across particles: when two input buffers
  agree at index \<open>i\<close>, the invocation for \<open>i\<close> gives the same result on both, under the
  same parameters (which carry the elapsed time), and so the two output buffers agree at
  \<open>i\<close>.  No other particle's state is read.
\<close>

theorem simulate_noninterference:
  assumes "i < length pin1" and "i < length pin2" and "pin1 ! i = pin2 ! i"
  shows "simulate sim pin1 i = simulate sim pin2 i \<and>
         (i < length pout \<longrightarrow> simulate_all sim pin1 pout ! i = simulate_all sim pin2 pout ! i)"
proof -
  have "simulate sim pin1 i = simulate sim pin2 i"
    using assms by (simp add: simulate_def)
  then show ?thesis by (simp add: simulate_all_nth)
qed

theorem simulate_noninterference_witness:
  "simulate example_sim [example_particle, example_particle\<lparr>life := Fin 1\<rparr>] 0 =
     simulate example_sim [example_particle, example_particle\<lparr>life := NaN\<rparr>, example_particle] 0 \<and>
   simulate_all example_sim [example_particle, example_particle\<lparr>life := Fin 1\<rparr>] [example_particle] ! 0 =
     simulate_all example_sim [example_particle, example_particle\<lparr>life := NaN\<rparr>, example_particle]
       [example_particle] ! 0"
  using simulate_noninterference
    [of 0 "[example_particle, example_particle\<lparr>life := Fin 1\<rparr>]"
       "[example_particle, example_particle\<lparr>life := NaN\<rparr>, example_particle]"
       example_sim "[example_particle]"]
  by simp




section \<open>Preset selection: applying a preset, saving and restoring custom settings\<close>

lemma put_apply: "put k v m k' = (if k' = k \<and> m k \<noteq> None then Some v else m k')"
  by (simp add: put_def)

lemma put_eq_None_iff: "put k v m k' = None \<longleftrightarrow> m k' = None"
  by (simp add: put_def)

lemma setSliderValue_put:
  "setSliderValue i v st = st\<lparr>number_inputs := put i (valueToSlider i v) (number_inputs st)\<rparr>"
  by (simp add: setSliderValue_def put_def)

lemma setSelectNumber_put:
  "setSelectNumber i v st = st\<lparr>number_inputs := put i (Some v) (number_inputs st)\<rparr>"
  by (simp add: setSelectNumber_def put_def)

lemma setSelectText_put:
  "setSelectText i v st = st\<lparr>text_inputs := put i v (text_inputs st)\<rparr>"
  by (simp add: setSelectText_def put_def)

lemma setColorInputValue_put:
  "setColorInputValue i c st = st\<lparr>text_inputs := put i (hex_of c) (text_inputs st)\<rparr>"
  by (simp add: setColorInputValue_def put_def hex_of_def)

lemma applyPresetToUI_eq:
  "applyPresetToUI preset st =
     st\<lparr>number_inputs := preset_numbers preset (number_inputs st),
        text_inputs := preset_texts preset (text_inputs st),
        currentParticleSize := Some (particle_size (particles preset))\<rparr>"
  by (simp add: applyPresetToUI_def setTerrainColorInputs_def setSkyColorInputs_def
      setParticleColorInput_def setSliderValue_put setSelectNumber_put setSelectText_put
      setColorInputValue_put preset_numbers_def preset_texts_def put_all_def hex_of_def
      split: prod.splits option.splits)

lemma applyFetchedPreset_eq:
  "applyFetchedPreset pid P st =
     st\<lparr>number_inputs := preset_numbers P (number_inputs st),
        text_inputs := preset_texts P (text_inputs st),
        currentParticleSize := Some (particle_size (particles P)),
        currentPresetId := Some pid,
        lastAppliedSettings := Some ((terrain P)\<lparr>seed := seed_of_draw (random_draws st (drawn st))\<rparr>),
        lastAppliedSkySettings :=
          Some ((sky P)\<lparr>sky_seed := seed_of_draw (random_draws st (Suc (drawn st)))\<rparr>),
        lastAppliedParticleSettings := Some (particles P),
        engine_terrain := Some ((terrain P)\<lparr>seed := seed_of_draw (random_draws st (drawn st))\<rparr>),
        engine_sky := Some ((sky P)\<lparr>sky_seed := seed_of_draw (random_draws st (Suc (drawn st)))\<rparr>),
        engine_particles := Some (particles P),
        generated_from := Some ((terrain P)\<lparr>seed := seed_of_draw (random_draws st (drawn st))\<rparr>),
        drawn := Suc (Suc (drawn st))\<rparr>"
  by (simp add: applyFetchedPreset_def Let_def generateSeed_def applyPresetToUI_eq
      update_terrain_settings_def update_sky_settings_def update_particle_settings_def
      regenerate_terrain_def setActivePreset_def)

lemma collectTerrainSettings_fresh:
  assumes "collectTerrainSettings None st = Some (t, sa)"
  shows "sa = st\<lparr>drawn := Suc (drawn st)\<rparr>" "seed t = seed_of_draw (random_draws st (drawn st))"
    "collectTerrainSettings (Some s) st = Some (t\<lparr>seed := s\<rparr>, st)"
  using assms
  by (auto simp: collectTerrainSettings_def generateSeed_def Let_def split: Option.bind_splits)

lemma collectSkySettings_fresh:
  assumes "collectSkySettings None st = Some (t, sa)"
  shows "sa = st\<lparr>drawn := Suc (drawn st)\<rparr>" "sky_seed t = seed_of_draw (random_draws st (drawn st))"
    "collectSkySettings (Some s) st = Some (t\<lparr>sky_seed := s\<rparr>, st)"
  using assms
  by (auto simp: collectSkySettings_def generateSeed_def Let_def split: Option.bind_splits)

lemma saveCustomSettings_custom:
  assumes "currentPresetId st = Some ''custom''"
    and "collectTerrainSettings None st = Some (Xt, sa)"
    and "collectSkySettings None sa = Some (Xs, sb)"
    and "collectParticleSettings sb = Some Xp"
  shows "saveCustomSettings st =
           Some (st\<lparr>drawn := Suc (Suc (drawn st)), savedCustomSettings := Some (Xt, Xs, Xp)\<rparr>)"
proof -
  have sa: "sa = st\<lparr>drawn := Suc (drawn st)\<rparr>" by (rule collectTerrainSettings_fresh(1) [OF assms(2)])
  have sb: "sb = sa\<lparr>drawn := Suc (drawn sa)\<rparr>" by (rule collectSkySettings_fresh(1) [OF assms(3)])
  show ?thesis
    using assms by (simp add: saveCustomSettings_def) (simp add: sa sb)
qed

lemma saveCustomSettings_frame:
  assumes "saveCustomSettings st = Some st1"
  shows "presets st1 = presets st" "random_draws st1 = random_draws st"
    "drawn st1 = drawn st + (if currentPresetId st = Some ''custom'' then 2 else 0)"
    "number_inputs st1 = number_inputs st" "text_inputs st1 = text_inputs st"
proof -
  show "presets st1 = presets st" "random_draws st1 = random_draws st"
    "drawn st1 = drawn st + (if currentPresetId st = Some ''custom'' then 2 else 0)"
    "number_inputs st1 = number_inputs st" "text_inputs st1 = text_inputs st"
    using assms
    by (auto simp: saveCustomSettings_def split: if_splits Option.bind_splits
        dest!: collectTerrainSettings_fresh(1) collectSkySettings_fresh(1))
qed

lemma seed_of_draw_range:
  assumes "0 \<le> r" "r < 1"
  shows "0 \<le> seed_of_draw r" "seed_of_draw r < SEED_MAX" "seed_of_draw r \<in> \<int>"
proof -
  have "0 \<le> r * 1000000" using assms by simp
  then show "0 \<le> seed_of_draw r" by (simp add: seed_of_draw_def SEED_MAX_def)
  have "r * 1000000 < 1000000" using assms by simp
  then have "\<lfloor>r * 1000000\<rfloor> < 1000000" by (simp add: floor_less_iff)
  then show "seed_of_draw r < SEED_MAX" by (simp add: seed_of_draw_def SEED_MAX_def)
  show "seed_of_draw r \<in> \<int>" by (simp add: seed_of_draw_def)
qed

text \<open>
  C3 (as amended).  Let \<open>pid\<close> be a preset id other than \<^verbatim>\<open>custom\<close> that \<^verbatim>\<open>get_preset\<close>
  resolves to \<open>P\<close>, and let the snapshot block not fail.  Then \<open>selectPreset pid\<close> returns,
  and afterwards the last-applied copies and the engine's settings are \<open>P\<close>'s terrain,
  sky and particle settings, except for the terrain seed and the sky seed, which are the
  next two draws of \<open>generateSeed\<close> (the draws after the two the snapshot uses when the
  identity was \<^verbatim>\<open>custom\<close>); the terrain is regenerated from these settings.  A draw in
  \<open>[0, 1)\<close> gives a seed in \<open>[0, SEED_MAX)\<close>; nothing keeps it away from \<open>P\<close>'s own seed.
\<close>

theorem selectPreset_applies_preset:
  fixes st :: page
  defines "k \<equiv> drawn st + (if currentPresetId st = Some ''custom'' then 2 else 0)"
  defines "seed1 \<equiv> seed_of_draw (random_draws st k)"
  defines "seed2 \<equiv> seed_of_draw (random_draws st (Suc k))"
  assumes "pid \<noteq> ''custom''" and "presets st pid = Some P"
    and "saveCustomSettings st \<noteq> None"
  shows "\<exists>st'. selectPreset pid st = Some st' \<and>
           currentPresetId st' = Some pid \<and>
           lastAppliedSettings st' = Some ((terrain P)\<lparr>seed := seed1\<rparr>) \<and>
           engine_terrain st' = Some ((terrain P)\<lparr>seed := seed1\<rparr>) \<and>
           generated_from st' = Some ((terrain P)\<lparr>seed := seed1\<rparr>) \<and>
           lastAppliedSkySettings st' = Some ((sky P)\<lparr>sky_seed := seed2\<rparr>) \<and>
           engine_sky st' = Some ((sky P)\<lparr>sky_seed := seed2\<rparr>) \<and>
           lastAppliedParticleSettings st' = Some (particles P) \<and>
           engine_particles st' = Some (particles P) \<and>
           (0 \<le> random_draws st k \<and> random_draws st k < 1 \<longrightarrow> 0 \<le> seed1 \<and> seed1 < SEED_MAX) \<and>
           (0 \<le> random_draws st (Suc k) \<and> random_draws st (Suc k) < 1 \<longrightarrow>
              0 \<le> seed2 \<and> seed2 < SEED_MAX)"
proof -
  from assms(6) obtain st1 where st1: "saveCustomSettings st = Some st1" by auto
  note fr = saveCustomSettings_frame [OF st1]
  have "selectPreset pid st = Some (applyFetchedPreset pid P st1)"
    using assms(4,5) by (simp add: selectPreset_def st1 fr)
  then show ?thesis
    by (simp add: applyFetchedPreset_eq fr seed_of_draw_range k_def seed1_def seed2_def)
qed

lemmas example_eval =
  read_number_def sliderToValue_def SLIDER_CONFIGS_def Math_pow_def parseInt_def truncate_number_def generateSeed_def
  Let_def hexToRgb_def hex_groups_def parseHex2_def hex_val_def upt_rec

lemma example_collect_terrain:
  "collectTerrainSettings None (example_page\<lparr>random_draws := f\<rparr>) =
     Some (example_terrain\<lparr>seed := seed_of_draw (f 0)\<rparr>, example_page\<lparr>random_draws := f, drawn := 1\<rparr>)"
  by (simp add: collectTerrainSettings_def example_page_def example_eval example_terrain_def)

lemma example_collect_sky:
  "collectSkySettings None (example_page\<lparr>random_draws := f, drawn := 1\<rparr>) =
     Some (example_sky\<lparr>sky_seed := seed_of_draw (f 1)\<rparr>, example_page\<lparr>random_draws := f, drawn := 2\<rparr>)"
  by (simp add: collectSkySettings_def example_page_def example_eval example_sky_def)

lemma example_collect_particles:
  "collectParticleSettings (example_page\<lparr>random_draws := f, drawn := 2\<rparr>) = Some example_particles"
  by (simp add: collectParticleSettings_def buildParticleSettingsFromValues_def example_page_def
      example_eval example_particles_def)

lemma example_save:
  "saveCustomSettings (example_page\<lparr>random_draws := f\<rparr>) =
     Some (example_page\<lparr>random_draws := f, drawn := 2,
             savedCustomSettings := Some (example_terrain\<lparr>seed := seed_of_draw (f 0)\<rparr>,
                                           example_sky\<lparr>sky_seed := seed_of_draw (f 1)\<rparr>,
                                           example_particles)\<rparr>)"
proof -
  have c: "currentPresetId (example_page\<lparr>random_draws := f\<rparr>) = Some ''custom''"
    by (simp add: example_page_def)
  show ?thesis
    using saveCustomSettings_custom [OF c example_collect_terrain example_collect_sky
        example_collect_particles]
    by (simp add: example_page_def)
qed

theorem selectPreset_applies_preset_witness:
  "\<exists>st'. selectPreset ''alpine'' (example_page\<lparr>random_draws := (\<lambda>k. real k / 10)\<rparr>) = Some st' \<and>
     currentPresetId st' = Some ''alpine'' \<and>
     lastAppliedSettings st' = Some ((terrain example_preset)\<lparr>seed := 200000\<rparr>) \<and>
     engine_terrain st' = Some ((terrain example_preset)\<lparr>seed := 200000\<rparr>) \<and>
     lastAppliedSkySettings st' = Some ((sky example_preset)\<lparr>sky_seed := 300000\<rparr>) \<and>
     engine_sky st' = Some ((sky example_preset)\<lparr>sky_seed := 300000\<rparr>) \<and>
     lastAppliedParticleSettings st' = Some (particles example_preset) \<and>
     engine_particles st' = Some (particles example_preset)"
proof -
  have a: "presets (example_page\<lparr>random_draws := (\<lambda>k. real k / 10)\<rparr>) ''alpine'' = Some example_preset"
    and c: "currentPresetId (example_page\<lparr>random_draws := (\<lambda>k. real k / 10)\<rparr>) = Some ''custom''"
    and d: "drawn (example_page\<lparr>random_draws := (\<lambda>k. real k / 10)\<rparr>) = 0"
    by (simp_all add: example_page_def)
  have b: "saveCustomSettings (example_page\<lparr>random_draws := (\<lambda>k. real k / 10)\<rparr>) \<noteq> None"
    by (simp add: example_save)
  have s: "seed_of_draw (1 / 5) = 200000" "seed_of_draw (3 / 10) = 300000"
    by (simp_all add: seed_of_draw_def SEED_MAX_def)
  have ne: "''alpine'' \<noteq> ''custom''" by simp
  from selectPreset_applies_preset [OF ne a b]
  show ?thesis
    by (simp add: c d s numeral_2_eq_2 numeral_3_eq_3) blast
qed

text \<open>The seeds need not differ: when the draw lands on the preset's own seed, what is read
  back equals the preset's bundle in every field, seeds included.\<close>

theorem fresh_seed_may_coincide_counterexample:
  "Option.bind (selectPreset ''alpine'' example_page) lastAppliedSettings = Some (terrain example_preset) \<and>
   Option.bind (selectPreset ''alpine'' example_page) lastAppliedSkySettings = Some (sky example_preset) \<and>
   Option.bind (selectPreset ''alpine'' example_page) engine_terrain = Some (terrain example_preset) \<and>
   Option.bind (selectPreset ''alpine'' example_page) engine_sky = Some (sky example_preset)"
proof -
  have p: "example_page\<lparr>random_draws := random_draws example_page\<rparr> = example_page" by simp
  have "saveCustomSettings example_page \<noteq> None"
    using example_save [of "random_draws example_page"] by (simp only: p) simp
  then obtain st1 where sv: "saveCustomSettings example_page = Some st1" by auto
  note fr = saveCustomSettings_frame [OF sv]
  have a: "presets example_page ''alpine'' = Some example_preset"
    and r: "random_draws example_page = (\<lambda>k. 17 / 400000)"
    by (simp_all add: example_page_def)
  have s: "seed_of_draw (17 / 400000) = 42" by (simp add: seed_of_draw_def SEED_MAX_def)
  have t: "(terrain example_preset)\<lparr>seed := 42\<rparr> = terrain example_preset"
    and k: "(sky example_preset)\<lparr>sky_seed := 42\<rparr> = sky example_preset"
    by (simp_all add: example_preset_def)
  have "selectPreset ''alpine'' example_page = Some (applyFetchedPreset ''alpine'' example_preset st1)"
    by (simp add: selectPreset_def sv fr a)
  then show ?thesis
    by (simp add: applyFetchedPreset_eq fr r s t k)
qed




































end
